theory Spec2Isabelle
  imports Complex_Main
begin

section \<open>Python values used by the supply-chain engine\<close>

text \<open>
  The engine is Python. Its floats are read as real numbers: every quantity below
  (distances, efficiencies, averages of small integers) is far from the range where
  rounding of binary floating point changes a comparison, and none of the operations
  produces a NaN from finite inputs. Python's unbounded integers are \<open>int\<close>.
  Record fields carry a short prefix, because several Python classes and dictionaries
  share the keys \<open>lat\<close>, \<open>lng\<close>, \<open>name\<close>, \<open>id\<close> and \<open>status\<close>.
\<close>

datatype py_exn = KeyError string | ValueError string | HTTPException nat string

text \<open>
  \<^verbatim>\<open>round(x)\<close> of Python 3 with one argument returns an integer and rounds a tie to the
  even neighbour (\<^verbatim>\<open>round(2.5) == 2\<close>, \<^verbatim>\<open>round(1.5) == 2\<close>).
\<close>

definition py_round :: "real \<Rightarrow> int" where
  "py_round x =
     (let f = \<lfloor>x\<rfloor>; d = x - of_int f
      in if d < 1 / 2 then f else if 1 / 2 < d then f + 1 else if even f then f else f + 1)"

text \<open>\<^verbatim>\<open>int(x)\<close> on a float truncates towards zero.\<close>

definition py_int :: "real \<Rightarrow> int" where
  "py_int x = (if 0 \<le> x then \<lfloor>x\<rfloor> else \<lceil>x\<rceil>)"

text \<open>\<^verbatim>\<open>str(n)\<close> on an integer: decimal digits, a minus sign when negative.\<close>

definition digit_char :: "nat \<Rightarrow> char" where
  "digit_char d = ''0123456789'' ! d"

fun str_nat :: "nat \<Rightarrow> string" where
  "str_nat n = (if n < 10 then [digit_char n] else str_nat (n div 10) @ [digit_char (n mod 10)])"

declare str_nat.simps [simp del]

definition str_int :: "int \<Rightarrow> string" where
  "str_int i = (if i < 0 then CHR ''-'' # str_nat (nat (- i)) else str_nat (nat i))"

section \<open>Demand forecasting (crew.py, DemandForecastingTool)\<close>

text \<open>
  \<^verbatim>\<open>
  for product, history in historical_data.items():
      if len(history) >= 3:
          recent_avg = sum(history[-3:]) / 3
          trend = (history[-1] - history[-3]) / 2 if len(history) >= 3 else 0
          forecast = max(0, recent_avg + trend)
          forecasts[product] = {"predicted_demand": round(forecast), "confidence": 0.85,
              "trend": "increasing" if trend > 0 else "decreasing" if trend < 0 else "stable"}
      else:
          forecasts[product] = {"predicted_demand": history[-1] if history else 0,
              "confidence": 0.5, "trend": "insufficient_data"}
  \<close>
  A history is a list of integer observations, oldest first. The dictionary of histories
  is an association list in insertion order. The quotients are exact here and doubles
  in the code: the two agree while the observations stay below about \<open>10^15\<close>, where
  the sum of three of them is still an exact double and the forecast, a multiple of
  \<open>1/6\<close>, is either exactly on a tie or far from one.
\<close>

record DemandForecast =
  predicted_demand :: int
  confidence :: real
  trend :: string

definition forecast_product :: "int list \<Rightarrow> DemandForecast" where
  "forecast_product history =
     (if 3 \<le> length history then
        let recent_avg = real_of_int (sum_list (drop (length history - 3) history)) / 3;
            trend_v = (if 3 \<le> length history
                       then real_of_int (history ! (length history - 1) - history ! (length history - 3)) / 2
                       else 0);
            forecast = max 0 (recent_avg + trend_v)
        in \<lparr>predicted_demand = py_round forecast, confidence = 0.85,
            trend = (if 0 < trend_v then ''increasing''
                     else if trend_v < 0 then ''decreasing'' else ''stable'')\<rparr>
      else \<lparr>predicted_demand = (if history \<noteq> [] then last history else 0),
            confidence = 0.5, trend = ''insufficient_data''\<rparr>)"

record ForecastResult =
  fr_region :: string
  fr_time_horizon_days :: int
  fr_forecasts :: "(string \<times> DemandForecast) list"
  fr_total_predicted_demand :: int

definition DemandForecastingTool_run ::
  "(string \<times> int list) list \<Rightarrow> string \<Rightarrow> int \<Rightarrow> ForecastResult" where
  "DemandForecastingTool_run historical_data region time_horizon =
     (let forecasts = map (\<lambda>(product, history). (product, forecast_product history)) historical_data
      in \<lparr>fr_region = region, fr_time_horizon_days = time_horizon, fr_forecasts = forecasts,
          fr_total_predicted_demand = sum_list (map (\<lambda>(p, f). predicted_demand f) forecasts)\<rparr>)"

section \<open>Route planning (crew.py, RouteOptimizationTool)\<close>

text \<open>
  The planner receives warehouses and deliveries as lists of dictionaries. It reads the
  keys \<^verbatim>\<open>lat\<close>, \<^verbatim>\<open>lng\<close> and \<^verbatim>\<open>name\<close> with \<^verbatim>\<open>d[key]\<close> (a missing key raises
  \<^verbatim>\<open>KeyError\<close>) and \<^verbatim>\<open>quantity\<close> with \<^verbatim>\<open>d.get('quantity', 'items')\<close>. A dictionary is a
  record whose fields are \<open>None\<close> for an absent key; coordinates are numbers, names are
  strings and quantities are integers, as in the repository's data.
\<close>

record loc_dict =
  ld_lat :: "real option"
  ld_lng :: "real option"
  ld_name :: "string option"
  ld_quantity :: "int option"

definition getitem :: "string \<Rightarrow> 'a option \<Rightarrow> py_exn + 'a" where
  "getitem key v = (case v of None \<Rightarrow> Inl (KeyError key) | Some x \<Rightarrow> Inr x)"

record RouteWaypoint =
  wp_lat :: real
  wp_lng :: real
  wp_type :: string
  wp_name :: string
  wp_action :: string

record OptimizedRoute =
  or_id :: string
  or_name :: string
  or_waypoints :: "RouteWaypoint list"
  or_distance :: real
  or_estimated_time :: string
  or_efficiency :: real
  or_priority :: string
  or_truck_id :: "string option"

text \<open>
  \<^verbatim>\<open>
  RouteWaypoint(lat=warehouse['lat'], lng=warehouse['lng'], type='pickup',
                name=warehouse['name'], action=f"Pickup inventory from {warehouse['name']}")
  \<close>
  The keys are read in this order; the first missing one raises.
\<close>

definition pickup_waypoint :: "loc_dict \<Rightarrow> py_exn + RouteWaypoint" where
  "pickup_waypoint warehouse =
     (case getitem ''lat'' (ld_lat warehouse) of Inl e \<Rightarrow> Inl e | Inr la \<Rightarrow>
     (case getitem ''lng'' (ld_lng warehouse) of Inl e \<Rightarrow> Inl e | Inr lo \<Rightarrow>
     (case getitem ''name'' (ld_name warehouse) of Inl e \<Rightarrow> Inl e | Inr nm \<Rightarrow>
        Inr \<lparr>wp_lat = la, wp_lng = lo, wp_type = ''pickup'', wp_name = nm,
             wp_action = ''Pickup inventory from '' @ nm\<rparr>)))"

text \<open>
  \<^verbatim>\<open>
  RouteWaypoint(lat=delivery['lat'], lng=delivery['lng'], type='delivery',
                name=delivery['name'],
                action=f"Deliver {delivery.get('quantity', 'items')} to {delivery['name']}")
  \<close>
\<close>

definition delivery_waypoint :: "loc_dict \<Rightarrow> py_exn + RouteWaypoint" where
  "delivery_waypoint delivery =
     (case getitem ''lat'' (ld_lat delivery) of Inl e \<Rightarrow> Inl e | Inr la \<Rightarrow>
     (case getitem ''lng'' (ld_lng delivery) of Inl e \<Rightarrow> Inl e | Inr lo \<Rightarrow>
     (case getitem ''name'' (ld_name delivery) of Inl e \<Rightarrow> Inl e | Inr nm \<Rightarrow>
        Inr \<lparr>wp_lat = la, wp_lng = lo, wp_type = ''delivery'', wp_name = nm,
             wp_action = ''Deliver ''
               @ (case ld_quantity delivery of None \<Rightarrow> ''items'' | Some q \<Rightarrow> str_int q)
               @ '' to '' @ nm\<rparr>)))"

text \<open>
  The two \<^verbatim>\<open>for\<close> loops that append to \<^verbatim>\<open>route_waypoints\<close>: the list built so far is the
  accumulator, and the first exception leaves the loop.
\<close>

fun append_waypoints ::
  "(loc_dict \<Rightarrow> py_exn + RouteWaypoint) \<Rightarrow> loc_dict list \<Rightarrow> RouteWaypoint list
     \<Rightarrow> py_exn + RouteWaypoint list" where
  "append_waypoints mk [] route_waypoints = Inr route_waypoints"
| "append_waypoints mk (d # ds) route_waypoints =
     (case mk d of Inl e \<Rightarrow> Inl e
      | Inr w \<Rightarrow> append_waypoints mk ds (route_waypoints @ [w]))"

text \<open>
  \<^verbatim>\<open>
  total_distance = 0
  for i in range(len(route_waypoints) - 1):
      curr = route_waypoints[i]; next_wp = route_waypoints[i + 1]
      distance = geodesic((curr.lat, curr.lng), (next_wp.lat, next_wp.lng)).miles
      total_distance += distance
  \<close>
  \<^verbatim>\<open>geodesic\<close> is the geopy library's; it is a parameter here, and it may raise (geopy
  rejects a latitude outside \<open>[-90, 90]\<close>).
\<close>

type_synonym geodesic_fn = "real \<times> real \<Rightarrow> real \<times> real \<Rightarrow> py_exn + real"

fun total_distance_loop :: "geodesic_fn \<Rightarrow> RouteWaypoint list \<Rightarrow> real \<Rightarrow> py_exn + real" where
  "total_distance_loop geodesic (curr_wp # next_wp # rest) total_distance =
     (case geodesic (wp_lat curr_wp, wp_lng curr_wp) (wp_lat next_wp, wp_lng next_wp) of
        Inl e \<Rightarrow> Inl e
      | Inr distance \<Rightarrow> total_distance_loop geodesic (next_wp # rest) (total_distance + distance))"
| "total_distance_loop geodesic [curr_wp] total_distance = Inr total_distance"
| "total_distance_loop geodesic [] total_distance = Inr total_distance"

text \<open>The efficiency of a planned route: \<^verbatim>\<open>max(85, min(99, 100 - (total_distance / 10)))\<close>.\<close>

definition route_efficiency :: "real \<Rightarrow> real" where
  "route_efficiency total_distance = max 85 (min 99 (100 - total_distance / 10))"

text \<open>
  \<^verbatim>\<open>
  estimated_hours = total_distance / 45
  estimated_time = f"{int(estimated_hours)}h {int((estimated_hours % 1) * 60)}m"
  \<close>
  \<^verbatim>\<open>x % 1\<close> on a float is the fractional part \<open>x - floor x\<close>. The minutes are computed
  exactly here; where the exact product is a whole number the code's doubles can fall
  just below it and print one minute less (51 miles: \<^verbatim>\<open>1h 7m\<close> in the code, \<open>1h 8m\<close>
  here). No statement below reads this string.
\<close>

definition estimated_time_str :: "real \<Rightarrow> string" where
  "estimated_time_str total_distance =
     (let estimated_hours = total_distance / 45
      in str_int (py_int estimated_hours) @ ''h '' @ str_int (py_int (frac estimated_hours * 60)) @ ''m'')"

text \<open>
  \<^verbatim>\<open>RouteOptimizationTool._run(warehouses, deliveries, truck_capacity)\<close>. The whole body is
  inside \<^verbatim>\<open>try ... except Exception as e: return {"success": False, "error": str(e)}\<close>:
  \<open>Inl e\<close> is that failure result, \<open>Inr route\<close> is \<^verbatim>\<open>{"success": True, "route": ...}\<close>.
  The clock reading \<^verbatim>\<open>int(time.time())\<close> that names the route is the parameter \<open>now\<close>.
  The \<^verbatim>\<open>recommendations\<close> strings of the result (formatted floats) are not modelled.
\<close>

definition RouteOptimizationTool_run ::
  "geodesic_fn \<Rightarrow> int \<Rightarrow> loc_dict list \<Rightarrow> loc_dict list \<Rightarrow> int \<Rightarrow> py_exn + OptimizedRoute" where
  "RouteOptimizationTool_run geodesic now warehouses deliveries truck_capacity =
     (case append_waypoints pickup_waypoint warehouses [] of Inl e \<Rightarrow> Inl e | Inr wps1 \<Rightarrow>
     (case append_waypoints delivery_waypoint deliveries wps1 of Inl e \<Rightarrow> Inl e | Inr route_waypoints \<Rightarrow>
     (case total_distance_loop geodesic route_waypoints 0 of Inl e \<Rightarrow> Inl e | Inr total_distance \<Rightarrow>
        Inr \<lparr>or_id = ''route_'' @ str_int now,
             or_name = ''Optimized Route - '' @ str_nat (length route_waypoints) @ '' stops'',
             or_waypoints = route_waypoints,
             or_distance = total_distance,
             or_estimated_time = estimated_time_str total_distance,
             or_efficiency = route_efficiency total_distance,
             or_priority = (if 3 < length deliveries then ''high'' else ''medium''),
             or_truck_id = None\<rparr>)))"

section \<open>Truck dispatch (crew.py, TruckDispatchTool)\<close>

text \<open>
  The tool receives the trucks and the route as dictionaries. It reads \<^verbatim>\<open>status\<close>,
  \<^verbatim>\<open>efficiency\<close> and \<^verbatim>\<open>driver\<close> with \<^verbatim>\<open>get\<close> (a default for an absent key), \<^verbatim>\<open>id\<close> with
  \<^verbatim>\<open>best_truck['id']\<close>, and writes \<^verbatim>\<open>status\<close>, \<^verbatim>\<open>route\<close> and \<^verbatim>\<open>total_stops\<close>. The other keys
  of a truck dictionary are in the record's extension and are never touched. The
  waypoints of the route dictionary are kept abstract (\<open>'w\<close>).
\<close>

record 'w truck_dict =
  td_id :: "string option"
  td_driver :: "string option"
  td_status :: "string option"
  td_efficiency :: "real option"
  td_route :: "'w list option"
  td_total_stops :: "nat option"

record 'w route_dict =
  rd_waypoints :: "'w list option"
  rd_name :: "string option"
  rd_estimated_time :: "string option"

datatype dispatch_result =
    Dispatched string string string string real
  | NoTrucks string string
  | DispatchException py_exn

text \<open>
  \<^verbatim>\<open>max(iterable, key=f)\<close> keeps the first item and replaces it only by an item whose key
  is strictly greater: of several maximal items the first one wins.
\<close>

fun py_max_key :: "('a \<Rightarrow> real) \<Rightarrow> 'a \<Rightarrow> 'a list \<Rightarrow> 'a" where
  "py_max_key key best [] = best"
| "py_max_key key best (x # xs) = py_max_key key (if key best < key x then x else best) xs"

definition get_efficiency :: "('w, 'z) truck_dict_scheme \<Rightarrow> real" where
  "get_efficiency t = (case td_efficiency t of None \<Rightarrow> 0 | Some e \<Rightarrow> e)"

text \<open>\<^verbatim>\<open>route.get('waypoints', [])\<close>\<close>

definition get_waypoints :: "('w, 'y) route_dict_scheme \<Rightarrow> 'w list" where
  "get_waypoints route = (case rd_waypoints route of None \<Rightarrow> [] | Some ws \<Rightarrow> ws)"

definition is_idle :: "('w, 'z) truck_dict_scheme \<Rightarrow> bool" where
  "is_idle t = (td_status t = Some ''idle'')"

text \<open>
  \<^verbatim>\<open>
  available_trucks = [t for t in trucks if t.get('status') == 'idle']
  if not available_trucks:
      return {"success": False, "error": "No available trucks for dispatch",
              "recommendation": "Wait for trucks to complete current routes"}
  best_truck = max(available_trucks, key=lambda t: t.get('efficiency', 0))
  best_truck['status'] = 'en-route'
  best_truck['route'] = route.get('waypoints', [])
  best_truck['total_stops'] = len(route.get('waypoints', []))
  return {"success": True, "dispatched_truck": best_truck['id'],
          "driver": best_truck.get('driver', 'Unknown'),
          "route_name": route.get('name', 'Unnamed Route'),
          "estimated_completion": route.get('estimated_time', 'Unknown'),
          "efficiency_rating": best_truck.get('efficiency', 0)}
  \<close>
  \<^verbatim>\<open>best_truck\<close> is one of the dictionaries of \<^verbatim>\<open>trucks\<close>, so the writes change the caller's
  list. Each list position is a dictionary of its own here; the position of
  \<^verbatim>\<open>best_truck\<close> is carried along with it, and the function returns the list after the
  writes together with the result dictionary. A missing \<^verbatim>\<open>id\<close> raises after the writes,
  inside the \<^verbatim>\<open>try\<close>, and gives the \<^verbatim>\<open>except\<close> branch's result.
\<close>

definition TruckDispatchTool_run ::
  "('w, 'z) truck_dict_scheme list \<Rightarrow> ('w, 'y) route_dict_scheme \<Rightarrow> string
     \<Rightarrow> ('w, 'z) truck_dict_scheme list \<times> dispatch_result" where
  "TruckDispatchTool_run trucks route priority =
     (let available_trucks = filter (\<lambda>(i, t). is_idle t) (enumerate 0 trucks)
      in case available_trucks of
           [] \<Rightarrow> (trucks, NoTrucks ''No available trucks for dispatch''
                                  ''Wait for trucks to complete current routes'')
         | first # others \<Rightarrow>
             (let (i, best_truck) = py_max_key (\<lambda>(i, t). get_efficiency t) first others;
                  best_truck' = best_truck\<lparr>td_status := Some ''en-route'',
                                           td_route := Some (get_waypoints route),
                                           td_total_stops := Some (length (get_waypoints route))\<rparr>;
                  trucks' = trucks[i := best_truck']
              in case getitem ''id'' (td_id best_truck') of
                   Inl e \<Rightarrow> (trucks', DispatchException e)
                 | Inr tid \<Rightarrow>
                     (trucks', Dispatched tid
                        (case td_driver best_truck' of None \<Rightarrow> ''Unknown'' | Some d \<Rightarrow> d)
                        (case rd_name route of None \<Rightarrow> ''Unnamed Route'' | Some n \<Rightarrow> n)
                        (case rd_estimated_time route of None \<Rightarrow> ''Unknown'' | Some t \<Rightarrow> t)
                        (get_efficiency best_truck'))))"

section \<open>The state store (crew.py, WalmartSupplyChainCrew)\<close>

record Warehouse =
  w_id :: int
  w_name :: string
  w_lat :: real
  w_lng :: real
  w_type :: string
  w_inventory :: "(string \<times> int) list"
  w_capacity :: int

record Truck =
  t_id :: string
  t_driver :: string
  t_capacity :: int
  t_current_load :: int
  t_lat :: real
  t_lng :: real
  t_status :: string
  t_route :: "RouteWaypoint list"
  t_efficiency :: real
  t_fuel_saved :: real
  t_co2_reduced :: real
  t_completed_stops :: int
  t_total_stops :: int

text \<open>The dictionary \<^verbatim>\<open>performance_metrics\<close>, with its five fixed keys.\<close>

record PerformanceMetrics =
  pm_total_distance_saved :: real
  pm_fuel_saved :: real
  pm_co2_reduced :: real
  pm_efficiency_score :: real
  pm_active_routes :: int

record WalmartSupplyChainCrew =
  warehouses :: "Warehouse list"
  trucks :: "Truck list"
  demand_history :: "(string \<times> (string \<times> int list) list) list"
  performance_metrics :: PerformanceMetrics

definition mk_Warehouse ::
  "int \<Rightarrow> string \<Rightarrow> real \<Rightarrow> real \<Rightarrow> string \<Rightarrow> (string \<times> int) list \<Rightarrow> int \<Rightarrow> Warehouse" where
  "mk_Warehouse i n la lo ty inventory cap =
     \<lparr>w_id = i, w_name = n, w_lat = la, w_lng = lo, w_type = ty, w_inventory = inventory,
      w_capacity = cap\<rparr>"

text \<open>
  The dataclass constructor with nine positional arguments; the remaining fields take
  their defaults \<^verbatim>\<open>fuel_saved = 0.0\<close>, \<^verbatim>\<open>co2_reduced = 0.0\<close>, \<^verbatim>\<open>completed_stops = 0\<close>,
  \<^verbatim>\<open>total_stops = 0\<close>.
\<close>

definition mk_Truck ::
  "string \<Rightarrow> string \<Rightarrow> int \<Rightarrow> int \<Rightarrow> real \<Rightarrow> real \<Rightarrow> string \<Rightarrow> RouteWaypoint list \<Rightarrow> real \<Rightarrow> Truck" where
  "mk_Truck i d cap load la lo st r eff =
     \<lparr>t_id = i, t_driver = d, t_capacity = cap, t_current_load = load, t_lat = la, t_lng = lo,
      t_status = st, t_route = r, t_efficiency = eff, t_fuel_saved = 0, t_co2_reduced = 0,
      t_completed_stops = 0, t_total_stops = 0\<rparr>"

definition initialize_warehouses :: "Warehouse list" where
  "initialize_warehouses =
     [mk_Warehouse 1 ''Dallas DC'' 32.7767 (-96.7970) ''main''
        [(''cereal'', 1250), (''milk'', 890), (''juice'', 650), (''bread'', 420)] 2000,
      mk_Warehouse 2 ''Houston DC'' 29.7604 (-95.3698) ''main''
        [(''cereal'', 890), (''milk'', 1100), (''juice'', 300), (''bread'', 380)] 2000,
      mk_Warehouse 3 ''Austin DC'' 30.2672 (-97.7431) ''main''
        [(''cereal'', 650), (''milk'', 480), (''juice'', 720), (''bread'', 290)] 1500,
      mk_Warehouse 4 ''Fort Worth Hub'' 32.7555 (-97.3308) ''pickup''
        [(''cereal'', 320), (''milk'', 240), (''juice'', 180), (''bread'', 150)] 800,
      mk_Warehouse 5 ''San Antonio Hub'' 29.4241 (-98.4936) ''delivery''
        [(''cereal'', 180), (''milk'', 160), (''juice'', 140), (''bread'', 120)] 600]"

definition initialize_trucks :: "Truck list" where
  "initialize_trucks =
     [mk_Truck ''T001'' ''John Smith'' 100 0 32.7767 (-96.7970) ''idle'' [] 98.5,
      mk_Truck ''T002'' ''Sarah Johnson'' 120 0 29.7604 (-95.3698) ''idle'' [] 97.2,
      mk_Truck ''T003'' ''Mike Wilson'' 110 0 30.2672 (-97.7431) ''idle'' [] 96.8,
      mk_Truck ''T004'' ''Lisa Brown'' 95 0 32.7555 (-97.3308) ''idle'' [] 98.0]"

definition initialize_demand_history :: "(string \<times> (string \<times> int list) list) list" where
  "initialize_demand_history =
     [(''Dallas'', [(''cereal'', [120, 140, 160, 180, 200]), (''milk'', [200, 220, 240, 260, 280]),
                    (''juice'', [80, 90, 100, 110, 120]), (''bread'', [150, 160, 170, 180, 190])]),
      (''Houston'', [(''cereal'', [100, 110, 120, 130, 140]), (''milk'', [180, 190, 200, 210, 220]),
                     (''juice'', [70, 75, 80, 85, 90]), (''bread'', [140, 145, 150, 155, 160])]),
      (''Austin'', [(''cereal'', [80, 85, 90, 95, 100]), (''milk'', [120, 125, 130, 135, 140]),
                    (''juice'', [90, 95, 100, 105, 110]), (''bread'', [100, 105, 110, 115, 120])])]"

text \<open>\<^verbatim>\<open>WalmartSupplyChainCrew.__init__\<close>, without the agents.\<close>

definition init_crew :: WalmartSupplyChainCrew where
  "init_crew =
     \<lparr>warehouses = initialize_warehouses, trucks = initialize_trucks,
      demand_history = initialize_demand_history,
      performance_metrics =
        \<lparr>pm_total_distance_saved = 0, pm_fuel_saved = 0, pm_co2_reduced = 0,
         pm_efficiency_score = 0, pm_active_routes = 0\<rparr>\<rparr>"

text \<open>
  \<^verbatim>\<open>asdict(t)\<close> for a truck: the dictionary the agents are shown, with every key present.
  The keys the dispatch tool does not read are dropped.
\<close>

definition asdict_truck :: "Truck \<Rightarrow> RouteWaypoint truck_dict" where
  "asdict_truck t =
     \<lparr>td_id = Some (t_id t), td_driver = Some (t_driver t), td_status = Some (t_status t),
      td_efficiency = Some (t_efficiency t), td_route = Some (t_route t),
      td_total_stops = Some (nat (t_total_stops t))\<rparr>"

text \<open>
  \<^verbatim>\<open>optimize_route(origin_warehouse_id, destination_requests)\<close>. The agents' run
  \<^verbatim>\<open>temp_crew.kickoff()\<close> is a parameter: it is given what the task description is built
  from (the origin, the requests, the idle trucks as dictionaries) and returns the
  report text or raises. It works on those copies only, so the crew's own trucks are
  out of its reach. An exception is not caught by \<^verbatim>\<open>optimize_route\<close>: it leaves before
  the metrics are written.
  \<^verbatim>\<open>
  origin_warehouse = next((w for w in self.warehouses if w.id == origin_warehouse_id), None)
  if not origin_warehouse:
      return {"success": False, "error": "Origin warehouse not found"}
  ...
  result = temp_crew.kickoff()
  self.performance_metrics["active_routes"] += 1
  self.performance_metrics["efficiency_score"] =
      min(99, self.performance_metrics["efficiency_score"] + 0.5)
  return {"success": True, "optimization_result": result, ...}
  \<close>
\<close>

record route_task =
  rt_origin :: Warehouse
  rt_delivery_requests :: "loc_dict list"
  rt_available_trucks :: "RouteWaypoint truck_dict list"

datatype optimize_result = OptimizeFailure string | OptimizeSuccess string | OptimizeRaised py_exn

definition optimize_route ::
  "(route_task \<Rightarrow> py_exn + string) \<Rightarrow> WalmartSupplyChainCrew \<Rightarrow> int \<Rightarrow> loc_dict list
     \<Rightarrow> WalmartSupplyChainCrew \<times> optimize_result" where
  "optimize_route kickoff self origin_warehouse_id destination_requests =
     (case find (\<lambda>w. w_id w = origin_warehouse_id) (warehouses self) of
        None \<Rightarrow> (self, OptimizeFailure ''Origin warehouse not found'')
      | Some origin_warehouse \<Rightarrow>
          (case kickoff \<lparr>rt_origin = origin_warehouse,
                         rt_delivery_requests = destination_requests,
                         rt_available_trucks =
                           map asdict_truck (filter (\<lambda>t. t_status t = ''idle'') (trucks self))\<rparr> of
             Inl e \<Rightarrow> (self, OptimizeRaised e)
           | Inr result \<Rightarrow>
               (let pm = performance_metrics self;
                    pm1 = pm\<lparr>pm_active_routes := pm_active_routes pm + 1\<rparr>;
                    pm2 = pm1\<lparr>pm_efficiency_score := min 99 (pm_efficiency_score pm1 + 0.5)\<rparr>
                in (self\<lparr>performance_metrics := pm2\<rparr>, OptimizeSuccess result))))"

section \<open>The server: subscribers, dispatch by id, telemetry (server.py)\<close>

text \<open>
  \<^verbatim>\<open>
  async def broadcast(self, message: str):
      for connection in self.active_connections:
          try:
              await connection.send_text(message)
          except:
              self.active_connections.remove(connection)
  \<close>
  The loop iterates over the very list it removes from. Python's list iterator keeps an
  index: each round it stops if the index has reached the current length, otherwise it
  yields the element at the index and increments the index. \<^verbatim>\<open>remove\<close> deletes the first
  equal element. Whether \<^verbatim>\<open>send_text\<close> raises for a connection is the parameter
  \<open>send_fails\<close>. The function returns the subscriber list after the loop and the
  connections the message was delivered to, in order.
\<close>

function broadcast_loop :: "('c \<Rightarrow> bool) \<Rightarrow> 'c list \<Rightarrow> nat \<Rightarrow> 'c list \<Rightarrow> 'c list \<times> 'c list" where
  "broadcast_loop send_fails active_connections i delivered =
     (if i < length active_connections then
        (let connection = active_connections ! i
         in if send_fails connection
            then broadcast_loop send_fails (remove1 connection active_connections) (i + 1) delivered
            else broadcast_loop send_fails active_connections (i + 1) (delivered @ [connection]))
      else (active_connections, delivered))"
  by pat_completeness auto
termination
proof (relation "measure (\<lambda>(f, conns, i, d). length conns - i)")
  show "wf (measure (\<lambda>(f, conns, i, d). length conns - i))"
    by simp
next
  fix send_fails :: "'c \<Rightarrow> bool" and active_connections :: "'c list" and i :: nat
    and delivered :: "'c list" and x :: 'c
  assume lt: "i < length active_connections" and x: "x = active_connections ! i"
  have "x \<in> set active_connections"
    using lt x by simp
  then have "length (remove1 x active_connections) = length active_connections - 1"
    by (simp add: length_remove1)
  then show "((send_fails, remove1 x active_connections, i + 1, delivered),
              (send_fails, active_connections, i, delivered))
             \<in> measure (\<lambda>(f, conns, i, d). length conns - i)"
    using lt by simp
next
  fix send_fails :: "'c \<Rightarrow> bool" and active_connections :: "'c list" and i :: nat
    and delivered :: "'c list" and x :: 'c
  assume "i < length active_connections"
  then show "((send_fails, active_connections, i + 1, delivered @ [x]),
              (send_fails, active_connections, i, delivered))
             \<in> measure (\<lambda>(f, conns, i, d). length conns - i)"
    by simp
qed

declare broadcast_loop.simps [simp del]

definition broadcast :: "('c \<Rightarrow> bool) \<Rightarrow> 'c list \<Rightarrow> 'c list \<times> 'c list" where
  "broadcast send_fails active_connections = broadcast_loop send_fails active_connections 0 []"

text \<open>
  The module's globals: \<^verbatim>\<open>supply_chain_system\<close> (\<^verbatim>\<open>None\<close> until start-up) and the
  manager's \<^verbatim>\<open>active_connections\<close>.
\<close>

record 'c server_state =
  supply_chain_system :: "WalmartSupplyChainCrew option"
  active_connections :: "'c list"

record TruckDispatchRequest =
  req_truck_id :: string
  req_route_id :: string
  req_priority :: string

text \<open>
  \<^verbatim>\<open>
  try:
      if not supply_chain_system: raise HTTPException(status_code=503, ...)
      truck = next((t for t in supply_chain_system.trucks if t.id == request.truck_id), None)
      if not truck: raise HTTPException(status_code=404, detail="Truck not found")
      if truck.status != 'idle': raise HTTPException(status_code=400, detail="Truck is not available")
      truck.status = 'en-route'
      await manager.broadcast(...)
      return JSONResponse(...)
  except Exception as e:
      raise HTTPException(status_code=500, detail=str(e))
  \<close>
  The three exceptions raised inside the \<^verbatim>\<open>try\<close> are caught by its own handler and
  leave as status 500 with the text of the original. The function returns the globals
  after the request (\<open>Inr\<close>) or the exception that leaves the handler (\<open>Inl\<close>); the JSON
  body of the response is not modelled. The write goes to the truck \<^verbatim>\<open>next\<close> found, the
  first one with the requested id.
\<close>

fun update_first :: "('a \<Rightarrow> bool) \<Rightarrow> ('a \<Rightarrow> 'a) \<Rightarrow> 'a list \<Rightarrow> 'a list" where
  "update_first P f [] = []"
| "update_first P f (x # xs) = (if P x then f x # xs else x # update_first P f xs)"

definition exn_text :: "py_exn \<Rightarrow> string" where
  "exn_text e =
     (case e of KeyError k \<Rightarrow> [CHR 0x27] @ k @ [CHR 0x27]
      | ValueError m \<Rightarrow> m
      | HTTPException c d \<Rightarrow> str_nat c @ '': '' @ d)"

definition reraise_500 :: "py_exn \<Rightarrow> py_exn" where
  "reraise_500 e = HTTPException 500 (exn_text e)"

definition dispatch_truck ::
  "('c \<Rightarrow> bool) \<Rightarrow> TruckDispatchRequest \<Rightarrow> 'c server_state \<Rightarrow> py_exn + 'c server_state" where
  "dispatch_truck send_fails request s =
     (case supply_chain_system s of
        None \<Rightarrow> Inl (reraise_500 (HTTPException 503 ''System not initialized''))
      | Some sys \<Rightarrow>
          (case find (\<lambda>t. t_id t = req_truck_id request) (trucks sys) of
             None \<Rightarrow> Inl (reraise_500 (HTTPException 404 ''Truck not found''))
           | Some truck \<Rightarrow>
               if t_status truck \<noteq> ''idle''
               then Inl (reraise_500 (HTTPException 400 ''Truck is not available''))
               else Inr \<lparr>supply_chain_system =
                           Some (sys\<lparr>trucks := update_first (\<lambda>t. t_id t = req_truck_id request)
                                                  (\<lambda>t. t\<lparr>t_status := ''en-route''\<rparr>) (trucks sys)\<rparr>),
                         active_connections = fst (broadcast send_fails (active_connections s))\<rparr>))"

text \<open>
  One round of the \<^verbatim>\<open>while True\<close> loop of \<^verbatim>\<open>simulate_real_time_updates\<close> (a telemetry tick);
  the loop itself never ends. The function returns the globals, the draw counter and
  the connections the update was delivered to.
  The random source is a sequence \<open>rnd\<close> of the values of \<^verbatim>\<open>random.random()\<close> and a
  counter of the draws made so far; \<^verbatim>\<open>random.uniform(a, b)\<close> is \<^verbatim>\<open>a + (b - a) * random()\<close>.
  \<^verbatim>\<open>
  if supply_chain_system and len(manager.active_connections) > 0:
      for truck in supply_chain_system.trucks:
          if truck.status == 'en-route':
              truck.lat += random.uniform(-0.001, 0.001)
              truck.lng += random.uniform(-0.001, 0.001)
              truck.fuel_saved += random.uniform(0, 0.1)
              truck.co2_reduced += random.uniform(0, 0.3)
      supply_chain_system.performance_metrics["efficiency_score"] = min(99,
          supply_chain_system.performance_metrics["efficiency_score"] + random.uniform(-0.5, 0.5))
      await manager.broadcast(...)
  \<close>
\<close>

definition uniform :: "real \<Rightarrow> real \<Rightarrow> real \<Rightarrow> real" where
  "uniform a b r = a + (b - a) * r"

fun update_trucks :: "(nat \<Rightarrow> real) \<Rightarrow> nat \<Rightarrow> Truck list \<Rightarrow> Truck list \<times> nat" where
  "update_trucks rnd n [] = ([], n)"
| "update_trucks rnd n (truck # rest) =
     (if t_status truck = ''en-route'' then
        (let truck' = truck\<lparr>t_lat := t_lat truck + uniform (- 0.001) 0.001 (rnd n),
                           t_lng := t_lng truck + uniform (- 0.001) 0.001 (rnd (n + 1)),
                           t_fuel_saved := t_fuel_saved truck + uniform 0 0.1 (rnd (n + 2)),
                           t_co2_reduced := t_co2_reduced truck + uniform 0 0.3 (rnd (n + 3))\<rparr>;
             (rest', n') = update_trucks rnd (n + 4) rest
         in (truck' # rest', n'))
      else
        (let (rest', n') = update_trucks rnd n rest in (truck # rest', n')))"

definition simulate_real_time_updates ::
  "(nat \<Rightarrow> real) \<Rightarrow> ('c \<Rightarrow> bool) \<Rightarrow> 'c server_state \<times> nat \<Rightarrow> 'c server_state \<times> nat \<times> 'c list" where
  "simulate_real_time_updates rnd send_fails sn =
     (let (s, n) = sn
      in case supply_chain_system s of
           None \<Rightarrow> (s, n, [])
         | Some sys \<Rightarrow>
             if 0 < length (active_connections s) then
               (let (trucks', n') = update_trucks rnd n (trucks sys);
                    pm = performance_metrics sys;
                    pm' = pm\<lparr>pm_efficiency_score :=
                                min 99 (pm_efficiency_score pm + uniform (- 0.5) 0.5 (rnd n'))\<rparr>;
                    (conns', delivered) = broadcast send_fails (active_connections s)
                in (\<lparr>supply_chain_system = Some (sys\<lparr>trucks := trucks', performance_metrics := pm'\<rparr>),
                     active_connections = conns'\<rparr>, n' + 1, delivered))
             else (s, n, []))"

text \<open>The invariant of the truck record named by the specification.\<close>

definition truck_inv :: "Truck \<Rightarrow> bool" where
  "truck_inv t = ((t_status t = ''idle'') = (t_route t = []))"

section \<open>Vocabulary of the statements\<close>

text \<open>
  What the statements about the planner say of its input: an entry has the three keys
  the planner reads with \<^verbatim>\<open>d[key]\<close>; its position is the coordinate pair; the legs of a
  sequence of positions are the results of \<^verbatim>\<open>geodesic\<close> on consecutive pairs.
\<close>

definition has_keys :: "loc_dict \<Rightarrow> bool" where
  "has_keys d = (ld_lat d \<noteq> None \<and> ld_lng d \<noteq> None \<and> ld_name d \<noteq> None)"

definition position :: "loc_dict \<Rightarrow> real \<times> real" where
  "position d = (the (ld_lat d), the (ld_lng d))"

definition wp_position :: "RouteWaypoint \<Rightarrow> real \<times> real" where
  "wp_position w = (wp_lat w, wp_lng w)"

definition legs :: "geodesic_fn \<Rightarrow> (real \<times> real) list \<Rightarrow> (py_exn + real) list" where
  "legs geodesic ps = map (\<lambda>(a, b). geodesic a b) (zip ps (tl ps))"

definition legs_accepted :: "geodesic_fn \<Rightarrow> (real \<times> real) list \<Rightarrow> bool" where
  "legs_accepted geodesic ps = list_all (\<lambda>r. \<not> isl r) (legs geodesic ps)"

text \<open>
  The requests of the demonstration run (\<^verbatim>\<open>run_walmart_supply_chain_demo\<close>) and the Dallas
  warehouse as a dictionary, used as concrete inputs.
\<close>

definition demo_warehouse :: loc_dict where
  "demo_warehouse =
     \<lparr>ld_lat = Some 32.7767, ld_lng = Some (- 96.7970), ld_name = Some ''Dallas DC'', ld_quantity = None\<rparr>"

definition demo_deliveries :: "loc_dict list" where
  "demo_deliveries =
     [\<lparr>ld_lat = Some 33.0198, ld_lng = Some (- 96.6989), ld_name = Some ''Plano Store'', ld_quantity = Some 45\<rparr>,
      \<lparr>ld_lat = Some 33.1507, ld_lng = Some (- 96.8236), ld_name = Some ''Frisco Store'', ld_quantity = Some 30\<rparr>,
      \<lparr>ld_lat = Some 33.1972, ld_lng = Some (- 96.6397), ld_name = Some ''McKinney Store'', ld_quantity = Some 25\<rparr>]"

text \<open>
  A route dictionary with one stop, and the fleet with every truck on the road, used as
  concrete inputs.
\<close>

definition demo_route :: "RouteWaypoint route_dict" where
  "demo_route =
     \<lparr>rd_waypoints = Some [\<lparr>wp_lat = 33.0198, wp_lng = - 96.6989, wp_type = ''delivery'',
                               wp_name = ''Plano Store'', wp_action = ''Deliver 45 to Plano Store''\<rparr>],
      rd_name = Some ''Optimized Route - 1 stops'', rd_estimated_time = Some ''0h 0m''\<rparr>"

definition all_en_route :: "Truck list \<Rightarrow> Truck list" where
  "all_en_route ts = map (\<lambda>t. t\<lparr>t_status := ''en-route''\<rparr>) ts"

text \<open>
  What the statements about the fleet say of a truck: an idle truck has no route (for a
  truck object and for a truck dictionary, where an absent \<^verbatim>\<open>route\<close> key counts as no
  route); the pair of a truck's status and route; and what a telemetry tick may do to a
  truck, namely leave it alone unless it is \<open>en-route\<close> and never lower its fuel and CO2
  counters.
\<close>

definition idle_route_empty :: "Truck \<Rightarrow> bool" where
  "idle_route_empty t = (t_status t = ''idle'' \<longrightarrow> t_route t = [])"

definition td_idle_route_empty :: "('w, 'z) truck_dict_scheme \<Rightarrow> bool" where
  "td_idle_route_empty t = (td_status t = Some ''idle'' \<longrightarrow> td_route t = None \<or> td_route t = Some [])"

definition status_route :: "Truck \<Rightarrow> string \<times> RouteWaypoint list" where
  "status_route t = (t_status t, t_route t)"

definition tick_frame :: "Truck \<Rightarrow> Truck \<Rightarrow> bool" where
  "tick_frame t t' =
     ((t_status t \<noteq> ''en-route'' \<longrightarrow> t' = t)
      \<and> t_fuel_saved t \<le> t_fuel_saved t' \<and> t_co2_reduced t \<le> t_co2_reduced t')"

text \<open>
  Concrete server states: just started with two subscribers; the same after truck T001
  was dispatched by id; and a crew whose trucks are all on the road. A request to
  dispatch truck T001.
\<close>

definition started :: "nat server_state" where
  "started = \<lparr>supply_chain_system = Some init_crew, active_connections = [1, 2]\<rparr>"

definition dispatch_T001 :: TruckDispatchRequest where
  "dispatch_T001 = \<lparr>req_truck_id = ''T001'', req_route_id = ''route_0'', req_priority = ''medium''\<rparr>"

definition on_the_road :: "nat server_state" where
  "on_the_road =
     \<lparr>supply_chain_system =
        Some (init_crew\<lparr>trucks := update_first (\<lambda>t. t_id t = ''T001'')
                                   (\<lambda>t. t\<lparr>t_status := ''en-route''\<rparr>) initialize_trucks\<rparr>),
      active_connections = [1, 2]\<rparr>"

definition busy_crew :: WalmartSupplyChainCrew where
  "busy_crew = init_crew\<lparr>trucks := all_en_route initialize_trucks\<rparr>"

section \<open>Subscriber fan-out\<close>

text \<open>
  C1. A tick is broadcast to the subscribers in list order; a subscriber whose delivery
  fails is removed, and every other subscriber is meant to receive the payload in the
  same tick. The code removes the failing connection from the list it is iterating, so
  the element that slides into the freed position is never visited. With subscribers
  \<open>[1, 2]\<close> where delivery to \<open>1\<close> fails and delivery to \<open>2\<close> would succeed, subscriber
  \<open>1\<close> is removed and subscriber \<open>2\<close>, still subscribed, receives nothing.
\<close>

theorem broadcast_skips_after_failure:
  "broadcast (\<lambda>c. c = (1::nat)) [1, 2] = ([2], [])"
  by (simp add: broadcast_def broadcast_loop.simps)

section \<open>Demand forecast\<close>

text \<open>
  C6. A history with at least three observations ends in \<open>a, b, c\<close>: the prediction is
  \<open>round (max 0 ((a + b + c) / 3 + trend))\<close> with \<open>trend = (c - a) / 2\<close>, so it is never
  negative; the confidence is 0.85, and the label is \<open>increasing\<close>, \<open>decreasing\<close> or
  \<open>stable\<close> by the sign of the trend. A history of two, one or no observations gives the
  last observation as it is (0 when empty), confidence 0.5 and the label
  \<open>insufficient_data\<close>; nothing is clamped there, so the prediction is negative when the
  last observation is. \<open>round\<close> is Python's, which rounds a tie to the even integer.
\<close>

theorem forecast_product_spec:
  "forecast_product (pre @ [a, b, c]) =
     \<lparr>predicted_demand = py_round (max 0 (real_of_int (a + b + c) / 3 + real_of_int (c - a) / 2)),
      confidence = 0.85,
      trend = (if 0 < real_of_int (c - a) / 2 then ''increasing''
               else if real_of_int (c - a) / 2 < 0 then ''decreasing'' else ''stable'')\<rparr>
   \<and> 0 \<le> predicted_demand (forecast_product (pre @ [a, b, c]))
   \<and> forecast_product [x, y] = \<lparr>predicted_demand = y, confidence = 0.5, trend = ''insufficient_data''\<rparr>
   \<and> forecast_product [x] = \<lparr>predicted_demand = x, confidence = 0.5, trend = ''insufficient_data''\<rparr>
   \<and> forecast_product [] = \<lparr>predicted_demand = 0, confidence = 0.5, trend = ''insufficient_data''\<rparr>"
proof -
  have round_nonneg: "0 \<le> py_round r" if "0 \<le> r" for r
    using that by (auto simp: py_round_def Let_def)
  have long: "forecast_product (pre @ [a, b, c]) =
     \<lparr>predicted_demand = py_round (max 0 (real_of_int (a + b + c) / 3 + real_of_int (c - a) / 2)),
      confidence = 0.85,
      trend = (if 0 < real_of_int (c - a) / 2 then ''increasing''
               else if real_of_int (c - a) / 2 < 0 then ''decreasing'' else ''stable'')\<rparr>"
    by (simp add: forecast_product_def Let_def nth_append add.assoc)
  have "0 \<le> predicted_demand (forecast_product (pre @ [a, b, c]))"
    unfolding long by (simp add: round_nonneg)
  moreover have "forecast_product [x, y] =
      \<lparr>predicted_demand = y, confidence = 0.5, trend = ''insufficient_data''\<rparr>"
    by (simp add: forecast_product_def)
  moreover have "forecast_product [x] =
      \<lparr>predicted_demand = x, confidence = 0.5, trend = ''insufficient_data''\<rparr>"
    by (simp add: forecast_product_def)
  moreover have "forecast_product [] =
      \<lparr>predicted_demand = 0, confidence = 0.5, trend = ''insufficient_data''\<rparr>"
    by (simp add: forecast_product_def)
  ultimately show ?thesis using long by blast
qed

text \<open>The two histories the specification works out: \<open>[120, 140, 160, 180, 200]\<close> and \<open>[50]\<close>.\<close>

theorem forecast_product_example:
  "forecast_product [120, 140, 160, 180, 200] =
     \<lparr>predicted_demand = 200, confidence = 0.85, trend = ''increasing''\<rparr>
   \<and> forecast_product [50] = \<lparr>predicted_demand = 50, confidence = 0.5, trend = ''insufficient_data''\<rparr>"
  using forecast_product_spec [of "[120, 140]" 160 180 200 50 50]
  by (simp add: py_round_def Let_def)

text \<open>
  A history of one negative observation: the prediction is that observation, below 0.
\<close>

theorem short_history_not_clamped:
  "forecast_product [- 5] =
     \<lparr>predicted_demand = - 5, confidence = 0.5, trend = ''insufficient_data''\<rparr>
   \<and> predicted_demand (forecast_product [- 5]) < 0"
  by (simp add: forecast_product_def)

section \<open>Telemetry tick\<close>

text \<open>
  C10. With no subscriber connected a telemetry tick changes nothing: the state (every
  truck's position, fuel and CO2 counters, the efficiency score) is returned as it was,
  no random number is drawn and nothing is delivered.
\<close>

theorem tick_without_subscribers:
  "active_connections s = [] \<Longrightarrow> simulate_real_time_updates rnd send_fails (s, n) = (s, n, [])"
  by (simp add: simulate_real_time_updates_def split: option.splits)

theorem tick_without_subscribers_witness:
  "active_connections \<lparr>supply_chain_system = Some init_crew, active_connections = ([]::nat list)\<rparr> = []
   \<and> simulate_real_time_updates (\<lambda>k. 1 / 2) (\<lambda>c. False)
        (\<lparr>supply_chain_system = Some init_crew, active_connections = ([]::nat list)\<rparr>, 0)
      = (\<lparr>supply_chain_system = Some init_crew, active_connections = []\<rparr>, 0, [])"
  using tick_without_subscribers
    [of "\<lparr>supply_chain_system = Some init_crew, active_connections = ([]::nat list)\<rparr>"
        "\<lambda>k. 1 / 2" "\<lambda>c. False" 0]
  by simp

section \<open>Route planner\<close>

subsection \<open>What a run of the planner returns\<close>

lemmas planner_eval =
  RouteOptimizationTool_run_def pickup_waypoint_def delivery_waypoint_def getitem_def
  demo_warehouse_def demo_deliveries_def

lemma append_waypoints_Inr:
  "append_waypoints mk ds acc = Inr wps \<Longrightarrow> map Inr wps = map Inr acc @ map mk ds"
proof (induction ds arbitrary: acc)
  case Nil
  then show ?case by simp
next
  case (Cons d ds)
  then show ?case by (auto split: sum.splits)
qed

lemma append_waypoints_isl:
  "isl (append_waypoints mk ds acc) = (\<not> list_all (\<lambda>d. \<not> isl (mk d)) ds)"
  by (induction ds arbitrary: acc) (auto split: sum.splits)

lemma pickup_waypoint_isl: "isl (pickup_waypoint d) = (\<not> has_keys d)"
  by (auto simp: pickup_waypoint_def getitem_def has_keys_def split: option.splits)

lemma delivery_waypoint_isl: "isl (delivery_waypoint d) = (\<not> has_keys d)"
  by (auto simp: delivery_waypoint_def getitem_def has_keys_def split: option.splits)

lemma pickup_waypoint_position: "pickup_waypoint d = Inr w \<Longrightarrow> wp_position w = position d"
  by (auto simp: pickup_waypoint_def getitem_def wp_position_def position_def split: option.splits)

lemma delivery_waypoint_position: "delivery_waypoint d = Inr w \<Longrightarrow> wp_position w = position d"
  by (auto simp: delivery_waypoint_def getitem_def wp_position_def position_def split: option.splits)

lemma total_distance_loop_Inr:
  "total_distance_loop geodesic wps t = Inr d \<Longrightarrow>
     \<exists>ls. legs geodesic (map wp_position wps) = map Inr ls \<and> d = t + sum_list ls"
proof (induction geodesic wps t rule: total_distance_loop.induct)
  case (1 geodesic curr_wp next_wp rest total_distance)
  from "1.prems" obtain x where
    g: "geodesic (wp_lat curr_wp, wp_lng curr_wp) (wp_lat next_wp, wp_lng next_wp) = Inr x"
    and rec: "total_distance_loop geodesic (next_wp # rest) (total_distance + x) = Inr d"
    by (auto split: sum.splits)
  from "1.IH" [OF g rec] obtain ls where
    ls: "legs geodesic (map wp_position (next_wp # rest)) = map Inr ls"
      "d = total_distance + x + sum_list ls"
    by blast
  have "legs geodesic (map wp_position (curr_wp # next_wp # rest)) = map Inr (x # ls)"
    using ls(1) g by (simp add: legs_def wp_position_def)
  moreover have "d = total_distance + sum_list (x # ls)"
    using ls(2) by simp
  ultimately show ?case by blast
next
  case (2 geodesic curr_wp total_distance)
  then show ?case by (simp add: legs_def)
next
  case (3 geodesic total_distance)
  then show ?case by (simp add: legs_def)
qed

lemma total_distance_loop_isl:
  "isl (total_distance_loop geodesic wps t) = (\<not> legs_accepted geodesic (map wp_position wps))"
proof (induction geodesic wps t rule: total_distance_loop.induct)
  case (1 geodesic curr_wp next_wp rest total_distance)
  then show ?case
    by (auto simp: legs_accepted_def legs_def wp_position_def split: sum.splits)
next
  case (2 geodesic curr_wp total_distance)
  then show ?case by (simp add: legs_accepted_def legs_def)
next
  case (3 geodesic total_distance)
  then show ?case by (simp add: legs_accepted_def legs_def)
qed

lemma run_Inr:
  assumes "RouteOptimizationTool_run geodesic now ws ds cap = Inr r"
  shows "map Inr (or_waypoints r) = map pickup_waypoint ws @ map delivery_waypoint ds"
    and "\<exists>ls. legs geodesic (map wp_position (or_waypoints r)) = map Inr ls \<and> or_distance r = sum_list ls"
    and "or_efficiency r = route_efficiency (or_distance r)"
proof -
  from assms obtain w1 w2 td where
    a1: "append_waypoints pickup_waypoint ws [] = Inr w1"
    and a2: "append_waypoints delivery_waypoint ds w1 = Inr w2"
    and a3: "total_distance_loop geodesic w2 0 = Inr td"
    and r: "or_waypoints r = w2" "or_distance r = td" "or_efficiency r = route_efficiency td"
    by (auto simp: RouteOptimizationTool_run_def split: sum.splits)
  from append_waypoints_Inr [OF a1] append_waypoints_Inr [OF a2]
  show "map Inr (or_waypoints r) = map pickup_waypoint ws @ map delivery_waypoint ds"
    using r(1) by simp
  from total_distance_loop_Inr [OF a3]
  show "\<exists>ls. legs geodesic (map wp_position (or_waypoints r)) = map Inr ls \<and> or_distance r = sum_list ls"
    using r by simp
  show "or_efficiency r = route_efficiency (or_distance r)"
    using r by simp
qed

lemma map_Inr_positions:
  "map Inr wps = map pickup_waypoint ws @ map delivery_waypoint ds \<Longrightarrow>
   map wp_position wps = map position (ws @ ds)"
proof -
  assume eq: "map Inr wps = map pickup_waypoint ws @ map delivery_waypoint ds"
  have len: "length wps = length ws + length ds"
    using arg_cong [OF eq, of length] by simp
  show ?thesis
  proof (rule nth_equalityI)
    show "length (map wp_position wps) = length (map position (ws @ ds))"
      using len by simp
  next
    fix i assume "i < length (map wp_position wps)"
    then have i: "i < length wps" by simp
    have "Inr (wps ! i) = (map pickup_waypoint ws @ map delivery_waypoint ds) ! i"
      using arg_cong [OF eq, of "\<lambda>l. l ! i"] i by simp
    then have "wp_position (wps ! i) = position ((ws @ ds) ! i)"
      using i len
      by (cases "i < length ws")
         (auto simp: nth_append pickup_waypoint_position delivery_waypoint_position
               dest!: sym [of "Inr _"])
    then show "map wp_position wps ! i = map position (ws @ ds) ! i"
      using i len by (simp del: map_append)
  qed
qed

text \<open>
  C3. The efficiency of every planned route is \<open>max 85 (min 99 (100 - d / 10))\<close> for its
  total distance \<open>d\<close>, so it lies between 85 and 99; a distance of 0 gives 99 and every
  distance of at least 150 gives 85. (At distance 140 the formula gives 86.)
\<close>

theorem planned_route_efficiency:
  "RouteOptimizationTool_run geodesic now ws ds cap = Inr r \<Longrightarrow>
     or_efficiency r = max 85 (min 99 (100 - or_distance r / 10))
     \<and> 85 \<le> or_efficiency r \<and> or_efficiency r \<le> 99
     \<and> (or_distance r = 0 \<longrightarrow> or_efficiency r = 99)
     \<and> (150 \<le> or_distance r \<longrightarrow> or_efficiency r = 85)"
  using run_Inr(3) [of geodesic now ws ds cap r]
  by (simp add: route_efficiency_def)

text \<open>A route of three legs of 75 miles, and a route with a single stop.\<close>

theorem planned_route_efficiency_witness:
  "\<not> isl (RouteOptimizationTool_run (\<lambda>a b. Inr 75) 0 [demo_warehouse] demo_deliveries 100)
   \<and> or_distance (projr (RouteOptimizationTool_run (\<lambda>a b. Inr 75) 0 [demo_warehouse] demo_deliveries 100)) = 225
   \<and> or_efficiency (projr (RouteOptimizationTool_run (\<lambda>a b. Inr 75) 0 [demo_warehouse] demo_deliveries 100)) = 85
   \<and> \<not> isl (RouteOptimizationTool_run (\<lambda>a b. Inr 75) 0 [demo_warehouse] [] 100)
   \<and> or_distance (projr (RouteOptimizationTool_run (\<lambda>a b. Inr 75) 0 [demo_warehouse] [] 100)) = 0
   \<and> or_efficiency (projr (RouteOptimizationTool_run (\<lambda>a b. Inr 75) 0 [demo_warehouse] [] 100)) = 99"
proof -
  let ?far = "RouteOptimizationTool_run (\<lambda>a b. Inr 75) 0 [demo_warehouse] demo_deliveries 100"
  let ?none = "RouteOptimizationTool_run (\<lambda>a b. Inr 75) 0 [demo_warehouse] [] 100"
  have far: "\<not> isl ?far" and far_d: "or_distance (projr ?far) = 225"
    by (simp_all add: planner_eval)
  have none: "\<not> isl ?none" and none_d: "or_distance (projr ?none) = 0"
    by (simp_all add: planner_eval)
  have "?far = Inr (projr ?far)" using far by simp
  from planned_route_efficiency [OF this] far_d
  have "or_efficiency (projr ?far) = 85" by simp
  moreover have "?none = Inr (projr ?none)" using none by simp
  from planned_route_efficiency [OF this] none_d
  have "or_efficiency (projr ?none) = 99" by simp
  ultimately show ?thesis using far far_d none none_d by blast
qed

text \<open>A planned route of total distance 140 has efficiency 86, not 85.\<close>

theorem efficiency_at_140_counterexample:
  "\<not> isl (RouteOptimizationTool_run (\<lambda>a b. Inr 140) 0 [demo_warehouse] [hd demo_deliveries] 100)
   \<and> or_distance (projr (RouteOptimizationTool_run (\<lambda>a b. Inr 140) 0 [demo_warehouse] [hd demo_deliveries] 100)) = 140
   \<and> or_efficiency (projr (RouteOptimizationTool_run (\<lambda>a b. Inr 140) 0 [demo_warehouse] [hd demo_deliveries] 100)) = 86"
  by (simp add: planner_eval route_efficiency_def)

text \<open>
  C4. The planner returns its failure result exactly when some warehouse or delivery
  entry lacks one of the keys \<open>lat\<close>, \<open>lng\<close>, \<open>name\<close>, or \<^verbatim>\<open>geodesic\<close> raises on two
  consecutive stops; in every other case, whatever the sizes of the two lists, it
  returns a route. An empty list of delivery requests is not an error.
\<close>

theorem planner_fails_iff:
  "isl (RouteOptimizationTool_run geodesic now ws ds cap) =
     (\<not> (list_all has_keys (ws @ ds) \<and> legs_accepted geodesic (map position (ws @ ds))))"
proof (cases "append_waypoints pickup_waypoint ws []")
  case (Inl e)
  then have "isl (append_waypoints pickup_waypoint ws [])" by simp
  then have "\<not> list_all has_keys ws"
    by (simp add: append_waypoints_isl pickup_waypoint_isl)
  then show ?thesis using Inl by (simp add: RouteOptimizationTool_run_def)
next
  case (Inr w1)
  then have "\<not> isl (append_waypoints pickup_waypoint ws [])" by simp
  then have k1: "list_all has_keys ws"
    by (simp add: append_waypoints_isl pickup_waypoint_isl)
  show ?thesis
  proof (cases "append_waypoints delivery_waypoint ds w1")
    case (Inl e)
    then have "isl (append_waypoints delivery_waypoint ds w1)" by simp
    then have "\<not> list_all has_keys ds"
      by (simp add: append_waypoints_isl delivery_waypoint_isl)
    then show ?thesis using Inl \<open>append_waypoints pickup_waypoint ws [] = Inr w1\<close>
      by (simp add: RouteOptimizationTool_run_def)
  next
    case (Inr w2)
    then have "\<not> isl (append_waypoints delivery_waypoint ds w1)" by simp
    then have k2: "list_all has_keys ds"
      by (simp add: append_waypoints_isl delivery_waypoint_isl)
    have "map Inr w2 = map pickup_waypoint ws @ map delivery_waypoint ds"
      using append_waypoints_Inr [OF \<open>append_waypoints pickup_waypoint ws [] = Inr w1\<close>]
        append_waypoints_Inr [OF Inr] by simp
    then have pos: "map wp_position w2 = map position (ws @ ds)"
      by (rule map_Inr_positions)
    have "isl (RouteOptimizationTool_run geodesic now ws ds cap) = isl (total_distance_loop geodesic w2 0)"
      using Inr \<open>append_waypoints pickup_waypoint ws [] = Inr w1\<close>
      by (simp add: RouteOptimizationTool_run_def split: sum.splits)
    then show ?thesis
      using k1 k2 pos by (simp add: total_distance_loop_isl)
  qed
qed


theorem planner_fails_iff_witness:
  "\<not> isl (RouteOptimizationTool_run (\<lambda>a b. Inr 12) 0 [demo_warehouse] demo_deliveries 100)
   \<and> isl (RouteOptimizationTool_run (\<lambda>a b. Inl (ValueError ''Latitude must be in the [-90; 90] range.'')) 0
            [demo_warehouse] demo_deliveries 100)"
  using planner_fails_iff [of "\<lambda>a b. Inr 12" 0 "[demo_warehouse]" demo_deliveries 100]
    planner_fails_iff [of "\<lambda>a b. Inl (ValueError ''Latitude must be in the [-90; 90] range.'')" 0
                      "[demo_warehouse]" demo_deliveries 100]
  by (simp add: has_keys_def legs_accepted_def legs_def demo_warehouse_def demo_deliveries_def)

text \<open>
  No delivery requests, and no stops at all: the planner succeeds. A delivery with both
  coordinates but no name: the planner fails with the \<^verbatim>\<open>KeyError\<close>.
\<close>

theorem planner_validation_counterexample:
  "\<not> isl (RouteOptimizationTool_run (\<lambda>a b. Inr 12) 0 [demo_warehouse] [] 100)
   \<and> \<not> isl (RouteOptimizationTool_run (\<lambda>a b. Inr 12) 0 [] [] 100)
   \<and> RouteOptimizationTool_run (\<lambda>a b. Inr 12) 0 [demo_warehouse]
        [\<lparr>ld_lat = Some 33.0198, ld_lng = Some (- 96.6989), ld_name = None, ld_quantity = Some 45\<rparr>] 100
      = Inl (KeyError ''name'')"
  by (simp add: planner_eval)



section \<open>Dispatch selection\<close>

subsection \<open>The first maximum of the idle trucks\<close>

lemma py_max_key_split:
  "\<exists>pre post. best # xs = pre @ py_max_key key best xs # post
      \<and> (\<forall>x\<in>set pre. key x < key (py_max_key key best xs))
      \<and> (\<forall>x\<in>set post. key x \<le> key (py_max_key key best xs))"
proof (induction xs arbitrary: best)
  case Nil
  show ?case
    by (rule exI [of _ "[]"], rule exI [of _ "[]"]) simp
next
  case (Cons x xs)
  show ?case
  proof (cases "key best < key x")
    case True
    define m where "m = py_max_key key x xs"
    have step: "py_max_key key best (x # xs) = m"
      using True by (simp add: m_def)
    from Cons.IH [of x] obtain pre post where
      split: "x # xs = pre @ m # post"
      and lt: "\<forall>y\<in>set pre. key y < key m"
      and le: "\<forall>y\<in>set post. key y \<le> key m"
      unfolding m_def by blast
    have "key x \<le> key m"
    proof (cases pre)
      case Nil
      then have "x = m" using split by simp
      then show ?thesis by simp
    next
      case (Cons p ps)
      then have "x \<in> set pre" using split by simp
      then show ?thesis using lt by force
    qed
    then have "key best < key m" using True by simp
    then have 1: "\<forall>y\<in>set (best # pre). key y < key m" using lt by simp
    have 2: "best # x # xs = (best # pre) @ m # post" using split by simp
    show ?thesis unfolding step
      by (rule exI [of _ "best # pre"], rule exI [of _ post]) (use 1 2 le in blast)
  next
    case False
    define m where "m = py_max_key key best xs"
    have step: "py_max_key key best (x # xs) = m"
      using False by (simp add: m_def)
    from Cons.IH [of best] obtain pre post where
      split: "best # xs = pre @ m # post"
      and lt: "\<forall>y\<in>set pre. key y < key m"
      and le: "\<forall>y\<in>set post. key y \<le> key m"
      unfolding m_def by blast
    show ?thesis
    proof (cases pre)
      case Nil
      then have mb: "best = m" and xp: "xs = post" using split by simp_all
      have 1: "best # x # xs = [] @ m # (x # post)" using mb xp by simp
      have "key x \<le> key m" using False mb by simp
      then have 2: "\<forall>y\<in>set (x # post). key y \<le> key m"
        using le by simp
      show ?thesis unfolding step
        by (rule exI [of _ "[]"], rule exI [of _ "x # post"]) (use 1 2 in simp)
    next
      case (Cons p ps)
      then have p: "p = best" and xs: "xs = ps @ m # post" using split by simp_all
      have "key best < key m" using lt Cons p by simp
      then have "key x < key m" using False by simp
      then have 1: "\<forall>y\<in>set (best # x # ps). key y < key m" using lt Cons p by simp
      have 2: "best # x # xs = (best # x # ps) @ m # post" using xs by simp
      show ?thesis unfolding step
        by (rule exI [of _ "best # x # ps"], rule exI [of _ post]) (use 1 2 le in blast)
    qed
  qed
qed

lemma idle_split_order:
  assumes "filter (\<lambda>(i, t). P t) (enumerate 0 ts) = pre @ (i, t) # post"
  shows "i < length ts \<and> t = ts ! i \<and> P t"
    and "\<forall>j<length ts. P (ts ! j) \<longrightarrow> j < i \<longrightarrow> (j, ts ! j) \<in> set pre"
    and "\<forall>j<length ts. P (ts ! j) \<longrightarrow> i < j \<longrightarrow> (j, ts ! j) \<in> set post"
proof -
  let ?L = "filter (\<lambda>(i, t). P t) (enumerate 0 ts)"
  have mem: "(i, t) \<in> set ?L" unfolding assms by simp
  then show "i < length ts \<and> t = ts ! i \<and> P t"
    by (simp add: in_set_enumerate_eq)
  have "sorted (map fst ?L)"
    by (rule sorted_filter) simp
  then have s: "sorted (map fst pre @ i # map fst post)"
    unfolding assms by simp
  have "distinct (map fst ?L)"
    by (rule distinct_map_filter) simp
  then have d: "distinct (map fst pre @ i # map fst post)"
    unfolding assms by simp
  have pre_le: "\<forall>k\<in>set (map fst pre). k \<le> i"
    using s by (simp add: sorted_append)
  have pre_ne: "i \<notin> set (map fst pre)"
    using d by simp
  have post_ge: "\<forall>k\<in>set (map fst post). i \<le> k"
    using s by (simp add: sorted_append)
  have post_ne: "i \<notin> set (map fst post)"
    using d by simp
  have all: "(j, ts ! j) \<in> set pre \<or> j = i \<or> (j, ts ! j) \<in> set post"
    if "j < length ts" "P (ts ! j)" for j
  proof -
    have "(j, ts ! j) \<in> set ?L"
      using that by (simp add: in_set_enumerate_eq)
    then show ?thesis unfolding assms by auto
  qed
  show "\<forall>j<length ts. P (ts ! j) \<longrightarrow> j < i \<longrightarrow> (j, ts ! j) \<in> set pre"
  proof (intro allI impI)
    fix j assume j: "j < length ts" "P (ts ! j)" "j < i"
    have "(j, ts ! j) \<notin> set post"
    proof
      assume "(j, ts ! j) \<in> set post"
      then have "j \<in> set (map fst post)" by force
      then show False using post_ge j(3) by auto
    qed
    then show "(j, ts ! j) \<in> set pre" using all [OF j(1,2)] j(3) by auto
  qed
  show "\<forall>j<length ts. P (ts ! j) \<longrightarrow> i < j \<longrightarrow> (j, ts ! j) \<in> set post"
  proof (intro allI impI)
    fix j assume j: "j < length ts" "P (ts ! j)" "i < j"
    have "(j, ts ! j) \<notin> set pre"
    proof
      assume "(j, ts ! j) \<in> set pre"
      then have "j \<in> set (map fst pre)" by force
      then show False using pre_le j(3) by auto
    qed
    then show "(j, ts ! j) \<in> set post" using all [OF j(1,2)] j(3) by auto
  qed
qed

lemma no_idle_iff:
  "(filter (\<lambda>(i, t). is_idle t) (enumerate 0 ts) = []) = list_all (\<lambda>t. \<not> is_idle t) ts"
  by (auto simp: filter_empty_conv in_set_enumerate_eq list_all_length)

lemmas fleet_eval =
  asdict_truck_def initialize_trucks_def mk_Truck_def all_en_route_def demo_route_def
  is_idle_def get_efficiency_def get_waypoints_def getitem_def

text \<open>
  C2. When no truck is idle, dispatch returns the failure with its recommendation
  string and leaves every truck as it was. Otherwise it picks an idle truck whose
  efficiency is at least that of every idle truck and strictly above that of every idle
  truck before it in the list (the first of the best); that truck, and no other, is
  written: status \<open>en-route\<close>, route the route's waypoint list, total stops its length.
  The result names the truck's id; a truck dictionary without an id gives the error
  result after the writes.
\<close>

theorem dispatch_selects_best_idle:
  "(list_all (\<lambda>t. \<not> is_idle t) ts \<longrightarrow>
      TruckDispatchTool_run ts route priority =
        (ts, NoTrucks ''No available trucks for dispatch''
                          ''Wait for trucks to complete current routes''))
   \<and> (\<not> list_all (\<lambda>t. \<not> is_idle t) ts \<longrightarrow>
        (\<exists>i<length ts. is_idle (ts ! i)
           \<and> (\<forall>j<length ts. is_idle (ts ! j) \<longrightarrow>
                  get_efficiency (ts ! j) \<le> get_efficiency (ts ! i))
           \<and> (\<forall>j<i. is_idle (ts ! j) \<longrightarrow>
                  get_efficiency (ts ! j) < get_efficiency (ts ! i))
           \<and> fst (TruckDispatchTool_run ts route priority) =
                ts[i := (ts ! i)\<lparr>td_status := Some ''en-route'',
                                         td_route := Some (get_waypoints route),
                                         td_total_stops := Some (length (get_waypoints route))\<rparr>]
           \<and> (\<forall>tid. td_id (ts ! i) = Some tid \<longrightarrow>
                  (\<exists>d n e. snd (TruckDispatchTool_run ts route priority) =
                             Dispatched tid d n e (get_efficiency (ts ! i))))
           \<and> (td_id (ts ! i) = None \<longrightarrow>
                  snd (TruckDispatchTool_run ts route priority) =
                    DispatchException (KeyError ''id''))))"
proof (cases "filter (\<lambda>(i, t). is_idle t) (enumerate 0 ts)")
  case Nil
  then have "list_all (\<lambda>t. \<not> is_idle t) ts"
    by (simp add: no_idle_iff)
  then show ?thesis
    unfolding TruckDispatchTool_run_def Let_def Nil by simp
next
  case (Cons first others)
  then have some: "\<not> list_all (\<lambda>t. \<not> is_idle t) ts"
    using no_idle_iff [of ts] by simp
  define m where "m = py_max_key (\<lambda>(i, t). get_efficiency t) first others"
  obtain i t where m: "m = (i, t)" by (cases m)
  from py_max_key_split [of first others "\<lambda>(i, t). get_efficiency t"]
  obtain pre post where
    split: "first # others = pre @ (i, t) # post"
    and lt: "\<forall>x\<in>set pre. (case x of (i, t) \<Rightarrow> get_efficiency t) < get_efficiency t"
    and le: "\<forall>x\<in>set post. (case x of (i, t) \<Rightarrow> get_efficiency t) \<le> get_efficiency t"
    unfolding m_def [symmetric] m by auto
  have L: "filter (\<lambda>(i, t). is_idle t) (enumerate 0 ts) = pre @ (i, t) # post"
    using Cons split by simp
  note ord = idle_split_order [OF L]
  have i: "i < length ts" and t: "t = ts ! i" and idle: "is_idle (ts ! i)"
    using ord(1) by blast+
  have before: "get_efficiency (ts ! j) < get_efficiency (ts ! i)"
    if "j < i" "is_idle (ts ! j)" for j
  proof -
    have "j < length ts" using that(1) i by simp
    then have "(j, ts ! j) \<in> set pre" using ord(2) that by blast
    with lt have "(case (j, ts ! j) of (i, t) \<Rightarrow> get_efficiency t) < get_efficiency t"
      by (rule bspec)
    then show ?thesis unfolding t by simp
  qed
  have after: "get_efficiency (ts ! j) \<le> get_efficiency (ts ! i)"
    if "i < j" "j < length ts" "is_idle (ts ! j)" for j
  proof -
    have "(j, ts ! j) \<in> set post" using ord(3) that by blast
    with le have "(case (j, ts ! j) of (i, t) \<Rightarrow> get_efficiency t) \<le> get_efficiency t"
      by (rule bspec)
    then show ?thesis unfolding t by simp
  qed
  have best: "get_efficiency (ts ! j) \<le> get_efficiency (ts ! i)"
    if "j < length ts" "is_idle (ts ! j)" for j
  proof -
    consider "j < i" | "j = i" | "i < j" by linarith
    then show ?thesis
    proof cases
      case 1
      from before [OF 1 that(2)] show ?thesis by simp
    next
      case 2 then show ?thesis by simp
    next
      case 3
      from after [OF 3 that] show ?thesis .
    qed
  qed
  have run_fst: "fst (TruckDispatchTool_run ts route priority) =
      ts[i := (ts ! i)\<lparr>td_status := Some ''en-route'',
                               td_route := Some (get_waypoints route),
                               td_total_stops := Some (length (get_waypoints route))\<rparr>]"
    unfolding TruckDispatchTool_run_def Let_def Cons list.case m_def [symmetric] m
    using t by (simp add: getitem_def split: option.splits)
  have run_ok: "\<exists>d n e. snd (TruckDispatchTool_run ts route priority) =
                  Dispatched tid d n e (get_efficiency (ts ! i))"
    if "td_id (ts ! i) = Some tid" for tid
    unfolding TruckDispatchTool_run_def Let_def Cons list.case m_def [symmetric] m
    using t that by (simp add: getitem_def get_efficiency_def)
  have run_exn: "snd (TruckDispatchTool_run ts route priority) = DispatchException (KeyError ''id'')"
    if "td_id (ts ! i) = None"
    unfolding TruckDispatchTool_run_def Let_def Cons list.case m_def [symmetric] m
    using t that by (simp add: getitem_def)
  have chosen: "i < length ts \<and> is_idle (ts ! i)
           \<and> (\<forall>j<length ts. is_idle (ts ! j) \<longrightarrow>
                  get_efficiency (ts ! j) \<le> get_efficiency (ts ! i))
           \<and> (\<forall>j<i. is_idle (ts ! j) \<longrightarrow>
                  get_efficiency (ts ! j) < get_efficiency (ts ! i))
           \<and> fst (TruckDispatchTool_run ts route priority) =
                ts[i := (ts ! i)\<lparr>td_status := Some ''en-route'',
                                         td_route := Some (get_waypoints route),
                                         td_total_stops := Some (length (get_waypoints route))\<rparr>]
           \<and> (\<forall>tid. td_id (ts ! i) = Some tid \<longrightarrow>
                  (\<exists>d n e. snd (TruckDispatchTool_run ts route priority) =
                             Dispatched tid d n e (get_efficiency (ts ! i))))
           \<and> (td_id (ts ! i) = None \<longrightarrow>
                  snd (TruckDispatchTool_run ts route priority) =
                    DispatchException (KeyError ''id''))"
  proof (intro conjI allI impI)
    show "i < length ts" by (rule i)
    show "is_idle (ts ! i)" by (rule idle)
    show "get_efficiency (ts ! j) \<le> get_efficiency (ts ! i)"
      if "j < length ts" "is_idle (ts ! j)" for j by (rule best [OF that])
    show "get_efficiency (ts ! j) < get_efficiency (ts ! i)"
      if "j < i" "is_idle (ts ! j)" for j by (rule before [OF that])
    show "fst (TruckDispatchTool_run ts route priority) =
                ts[i := (ts ! i)\<lparr>td_status := Some ''en-route'',
                                         td_route := Some (get_waypoints route),
                                         td_total_stops := Some (length (get_waypoints route))\<rparr>]"
      by (rule run_fst)
    show "\<exists>d n e. snd (TruckDispatchTool_run ts route priority) =
                             Dispatched tid d n e (get_efficiency (ts ! i))"
      if "td_id (ts ! i) = Some tid" for tid by (rule run_ok [OF that])
    show "snd (TruckDispatchTool_run ts route priority) = DispatchException (KeyError ''id'')"
      if "td_id (ts ! i) = None" by (rule run_exn [OF that])
  qed
  show ?thesis
  proof (intro conjI impI)
    assume "list_all (\<lambda>t. \<not> is_idle t) ts"
    with some show "TruckDispatchTool_run ts route priority =
        (ts, NoTrucks ''No available trucks for dispatch''
                          ''Wait for trucks to complete current routes'')"
      by contradiction
  next
    from chosen show "\<exists>i<length ts. is_idle (ts ! i)
           \<and> (\<forall>j<length ts. is_idle (ts ! j) \<longrightarrow>
                  get_efficiency (ts ! j) \<le> get_efficiency (ts ! i))
           \<and> (\<forall>j<i. is_idle (ts ! j) \<longrightarrow>
                  get_efficiency (ts ! j) < get_efficiency (ts ! i))
           \<and> fst (TruckDispatchTool_run ts route priority) =
                ts[i := (ts ! i)\<lparr>td_status := Some ''en-route'',
                                         td_route := Some (get_waypoints route),
                                         td_total_stops := Some (length (get_waypoints route))\<rparr>]
           \<and> (\<forall>tid. td_id (ts ! i) = Some tid \<longrightarrow>
                  (\<exists>d n e. snd (TruckDispatchTool_run ts route priority) =
                             Dispatched tid d n e (get_efficiency (ts ! i))))
           \<and> (td_id (ts ! i) = None \<longrightarrow>
                  snd (TruckDispatchTool_run ts route priority) =
                    DispatchException (KeyError ''id''))"
      by (rule exI [of _ i])
  qed
qed

text \<open>
  The fleet of the specification, efficiencies 98.5, 97.2, 96.8 and 98.0: the first truck
  is dispatched. With every truck on the road nothing is dispatched.
\<close>

theorem dispatch_selects_best_idle_witness:
  "list_all (\<lambda>t. \<not> is_idle t) (map asdict_truck (all_en_route initialize_trucks))
   \<and> TruckDispatchTool_run (map asdict_truck (all_en_route initialize_trucks)) demo_route ''medium''
       = (map asdict_truck (all_en_route initialize_trucks),
          NoTrucks ''No available trucks for dispatch'' ''Wait for trucks to complete current routes'')
   \<and> \<not> list_all (\<lambda>t. \<not> is_idle t) (map asdict_truck initialize_trucks)
   \<and> map get_efficiency (map asdict_truck initialize_trucks) = [98.5, 97.2, 96.8, 98.0]
   \<and> snd (TruckDispatchTool_run (map asdict_truck initialize_trucks) demo_route ''medium'')
       = Dispatched ''T001'' ''John Smith'' ''Optimized Route - 1 stops'' ''0h 0m'' 98.5
   \<and> map td_status (fst (TruckDispatchTool_run (map asdict_truck initialize_trucks) demo_route ''medium''))
       = [Some ''en-route'', Some ''idle'', Some ''idle'', Some ''idle'']
   \<and> map td_total_stops (fst (TruckDispatchTool_run (map asdict_truck initialize_trucks) demo_route ''medium''))
       = [Some 1, Some 0, Some 0, Some 0]"
proof -
  let ?busy = "map asdict_truck (all_en_route initialize_trucks)"
  let ?fleet = "map asdict_truck initialize_trucks"
  have busy: "list_all (\<lambda>t. \<not> is_idle t) ?busy"
    by (simp add: fleet_eval)
  have fleet: "\<not> list_all (\<lambda>t. \<not> is_idle t) ?fleet"
    by (simp add: fleet_eval)
  from dispatch_selects_best_idle [of ?busy demo_route "''medium''"] busy
  have 1: "TruckDispatchTool_run ?busy demo_route ''medium''
       = (?busy, NoTrucks ''No available trucks for dispatch'' ''Wait for trucks to complete current routes'')"
    by blast
  from dispatch_selects_best_idle [of ?fleet demo_route "''medium''"] fleet
  obtain i where i: "i < length ?fleet"
    and best: "\<forall>j<length ?fleet. is_idle (?fleet ! j) \<longrightarrow>
                  get_efficiency (?fleet ! j) \<le> get_efficiency (?fleet ! i)"
    and upd: "fst (TruckDispatchTool_run ?fleet demo_route ''medium'') =
                ?fleet[i := (?fleet ! i)\<lparr>td_status := Some ''en-route'',
                                         td_route := Some (get_waypoints demo_route),
                                         td_total_stops := Some (length (get_waypoints demo_route))\<rparr>]"
    and res: "\<forall>tid. td_id (?fleet ! i) = Some tid \<longrightarrow>
                  (\<exists>d n e. snd (TruckDispatchTool_run ?fleet demo_route ''medium'') =
                             Dispatched tid d n e (get_efficiency (?fleet ! i)))"
    by blast
  have "0 < length ?fleet" and "is_idle (?fleet ! 0)"
    by (simp_all add: fleet_eval)
  with best have top: "get_efficiency (?fleet ! 0) \<le> get_efficiency (?fleet ! i)"
    by blast
  have "i = 0 \<or> i = 1 \<or> i = 2 \<or> i = 3"
    using i by (auto simp: initialize_trucks_def)
  then have i0: "i = 0"
    using top by (auto simp: fleet_eval)
  have 2: "map td_status (fst (TruckDispatchTool_run ?fleet demo_route ''medium''))
       = [Some ''en-route'', Some ''idle'', Some ''idle'', Some ''idle'']"
    unfolding upd i0 by (simp add: fleet_eval)
  have 3: "map td_total_stops (fst (TruckDispatchTool_run ?fleet demo_route ''medium''))
       = [Some 1, Some 0, Some 0, Some 0]"
    unfolding upd i0 by (simp add: fleet_eval)
  have 4: "snd (TruckDispatchTool_run ?fleet demo_route ''medium'')
       = Dispatched ''T001'' ''John Smith'' ''Optimized Route - 1 stops'' ''0h 0m'' 98.5"
    by (simp add: TruckDispatchTool_run_def Let_def fleet_eval)
  have 5: "map get_efficiency ?fleet = [98.5, 97.2, 96.8, 98.0]"
    by (simp add: fleet_eval)
  show ?thesis using busy 1 fleet 2 3 4 5 by blast
qed

text \<open>Two idle trucks of equal efficiency: the earlier one is dispatched.\<close>

theorem dispatch_tie_first_seen:
  "snd (TruckDispatchTool_run
          (map asdict_truck [mk_Truck ''T004'' ''Lisa Brown'' 95 0 32.7555 (- 97.3308) ''idle'' [] 98.0,
                             mk_Truck ''T005'' ''Ann Lee'' 95 0 32.7555 (- 97.3308) ''idle'' [] 98.0])
          demo_route ''medium'')
     = Dispatched ''T004'' ''Lisa Brown'' ''Optimized Route - 1 stops'' ''0h 0m'' 98.0"
  by (simp add: TruckDispatchTool_run_def Let_def fleet_eval)


section \<open>What a telemetry tick changes\<close>

lemmas state_eval =
  started_def on_the_road_def dispatch_T001_def init_crew_def initialize_trucks_def mk_Truck_def

lemma update_trucks_frame:
  assumes "\<forall>k. 0 \<le> rnd k \<and> rnd k \<le> 1"
  shows "list_all2 tick_frame ts (fst (update_trucks rnd n ts))"
proof (induction ts arbitrary: n)
  case Nil
  show ?case by simp
next
  case (Cons truck rest)
  have fuel: "0 \<le> uniform 0 0.1 (rnd k)" and co2: "0 \<le> uniform 0 0.3 (rnd k)" for k
    using assms by (simp_all add: uniform_def)
  show ?case
  proof (cases "t_status truck = ''en-route''")
    case True
    then show ?thesis
      using Cons.IH [of "n + 4"] fuel [of "n + 2"] co2 [of "n + 3"]
      by (simp add: Let_def tick_frame_def case_prod_beta)
  next
    case False
    then show ?thesis
      using Cons.IH [of n]
      by (simp add: Let_def tick_frame_def case_prod_beta)
  qed
qed

lemma update_trucks_status_route:
  "map status_route (fst (update_trucks rnd n ts)) = map status_route ts"
  by (induction ts arbitrary: n) (simp_all add: Let_def status_route_def case_prod_beta)

lemma tick_system:
  "supply_chain_system s = Some sys \<Longrightarrow>
     supply_chain_system (fst (simulate_real_time_updates rnd send_fails (s, n))) =
       Some (if active_connections s = [] then sys
             else sys\<lparr>trucks := fst (update_trucks rnd n (trucks sys)),
                      performance_metrics := (performance_metrics sys)
                        \<lparr>pm_efficiency_score :=
                           min 99 (pm_efficiency_score (performance_metrics sys)
                                   + uniform (- 0.5) 0.5 (rnd (snd (update_trucks rnd n (trucks sys)))))\<rparr>\<rparr>)"
  by (simp add: simulate_real_time_updates_def Let_def case_prod_beta)

text \<open>
  C9. With the random draws in \<open>[0, 1]\<close>, a telemetry tick leaves every truck that is
  not \<open>en-route\<close> exactly as it was, and no truck's \<open>fuel_saved\<close> or \<open>co2_reduced\<close>
  decreases. A tick that runs (some subscriber connected) leaves the efficiency score
  at most 99, and a tick that does not run leaves the score as it was, so a score of at
  most 99 (it starts at 0) stays at most 99.
\<close>

theorem tick_perturbs_only_en_route:
  assumes "\<forall>k. 0 \<le> rnd k \<and> rnd k \<le> 1"
    and "supply_chain_system s = Some sys"
  shows "\<exists>sys'. supply_chain_system (fst (simulate_real_time_updates rnd send_fails (s, n))) = Some sys'
           \<and> list_all2 tick_frame (trucks sys) (trucks sys')
           \<and> (active_connections s \<noteq> [] \<longrightarrow> pm_efficiency_score (performance_metrics sys') \<le> 99)
           \<and> (pm_efficiency_score (performance_metrics sys) \<le> 99
                \<longrightarrow> pm_efficiency_score (performance_metrics sys') \<le> 99)"
proof (cases "active_connections s = []")
  case True
  have "list_all2 tick_frame (trucks sys) (trucks sys)"
    by (simp add: list_all2_same tick_frame_def)
  then show ?thesis
    using tick_system [OF assms(2), of rnd send_fails n] True by simp
next
  case False
  then show ?thesis
    using tick_system [OF assms(2), of rnd send_fails n] update_trucks_frame [OF assms(1)]
    by simp
qed

text \<open>
  A tick on the fleet with T001 on the road and every draw 1/2: only T001's counters
  move.
\<close>

theorem tick_perturbs_only_en_route_witness:
  "(\<forall>k. (0::real) \<le> 1 / 2 \<and> (1 / 2::real) \<le> 1)
   \<and> (\<exists>sys'. supply_chain_system (fst (simulate_real_time_updates (\<lambda>k. 1 / 2) (\<lambda>c. False) (on_the_road, 0))) = Some sys'
         \<and> list_all2 tick_frame (trucks (the (supply_chain_system on_the_road))) (trucks sys')
         \<and> map t_status (trucks sys') = [''en-route'', ''idle'', ''idle'', ''idle'']
         \<and> map t_fuel_saved (trucks sys') = [0.05, 0, 0, 0]
         \<and> map t_co2_reduced (trucks sys') = [0.15, 0, 0, 0]
         \<and> pm_efficiency_score (performance_metrics sys') \<le> 99)"
proof -
  have sys: "supply_chain_system on_the_road = Some (the (supply_chain_system on_the_road))"
    by (simp add: state_eval)
  have conns: "active_connections on_the_road \<noteq> []"
    by (simp add: state_eval)
  have rnd: "\<forall>k. (0::real) \<le> (\<lambda>k. 1 / 2) k \<and> (\<lambda>k. 1 / 2 :: real) k \<le> 1"
    by simp
  from tick_perturbs_only_en_route [OF rnd sys, of "\<lambda>c. False" 0] conns
  obtain sys' where
    s': "supply_chain_system (fst (simulate_real_time_updates (\<lambda>k. 1 / 2) (\<lambda>c. False) (on_the_road, 0))) = Some sys'"
    and frame: "list_all2 tick_frame (trucks (the (supply_chain_system on_the_road))) (trucks sys')"
    and score: "pm_efficiency_score (performance_metrics sys') \<le> 99"
    by blast
  have "supply_chain_system (fst (simulate_real_time_updates (\<lambda>k. 1 / 2) (\<lambda>c. False) (on_the_road, 0)))
          = Some (the (supply_chain_system (fst (simulate_real_time_updates (\<lambda>k. 1 / 2) (\<lambda>c. False) (on_the_road, 0)))))"
    using s' by simp
  have vals: "map t_status (trucks sys') = [''en-route'', ''idle'', ''idle'', ''idle'']
      \<and> map t_fuel_saved (trucks sys') = [0.05, 0, 0, 0]
      \<and> map t_co2_reduced (trucks sys') = [0.15, 0, 0, 0]"
    using s' by (auto simp: simulate_real_time_updates_def Let_def case_prod_beta uniform_def state_eval)
  show ?thesis using s' frame score vals by simp
qed

section \<open>Status and route of a truck\<close>

lemma list_all_update_first:
  "list_all Q xs \<Longrightarrow> (\<And>x. Q (f x)) \<Longrightarrow> list_all Q (update_first P f xs)"
  by (induction xs) simp_all

lemma dispatch_truck_Inr:
  assumes "supply_chain_system s = Some sys"
    and "dispatch_truck send_fails request s = Inr s'"
  shows "supply_chain_system s' =
           Some (sys\<lparr>trucks := update_first (\<lambda>t. t_id t = req_truck_id request)
                                  (\<lambda>t. t\<lparr>t_status := ''en-route''\<rparr>) (trucks sys)\<rparr>)"
  using assms
  by (auto simp: dispatch_truck_def split: option.splits if_splits)

lemma dispatch_fst_cases:
  "fst (TruckDispatchTool_run ds route priority) = ds
   \<or> (\<exists>i<length ds. fst (TruckDispatchTool_run ds route priority) =
         ds[i := (ds ! i)\<lparr>td_status := Some ''en-route'',
                           td_route := Some (get_waypoints route),
                           td_total_stops := Some (length (get_waypoints route))\<rparr>])"
proof (cases "filter (\<lambda>(i, t). is_idle t) (enumerate 0 ds)")
  case Nil
  show ?thesis
    unfolding TruckDispatchTool_run_def Let_def Nil by simp
next
  case (Cons first others)
  define m where "m = py_max_key (\<lambda>(i, t). get_efficiency t) first others"
  obtain i t where m: "m = (i, t)" by (cases m)
  from py_max_key_split [of first others "\<lambda>(i, t). get_efficiency t"]
  obtain pre post where "first # others = pre @ (i, t) # post"
    unfolding m_def [symmetric] m by auto
  then have "filter (\<lambda>(i, t). is_idle t) (enumerate 0 ds) = pre @ (i, t) # post"
    using Cons by simp
  from idle_split_order(1) [OF this]
  have i: "i < length ds" and t: "t = ds ! i" by blast+
  have "fst (TruckDispatchTool_run ds route priority) =
      ds[i := (ds ! i)\<lparr>td_status := Some ''en-route'',
                        td_route := Some (get_waypoints route),
                        td_total_stops := Some (length (get_waypoints route))\<rparr>]"
    unfolding TruckDispatchTool_run_def Let_def Cons list.case m_def [symmetric] m
    using t by (simp add: getitem_def split: option.splits)
  then show ?thesis using i by blast
qed

text \<open>
  C7. Initialisation creates every truck idle with an empty route. Dispatch of a planned
  route, dispatch of a truck by id and the telemetry tick all keep this much of the
  invariant: an idle truck has an empty route. The tick changes no truck's status or
  route. The converse direction is not kept: see the counterexample below.
\<close>

theorem idle_trucks_have_no_route:
  "list_all truck_inv initialize_trucks
   \<and> (list_all td_idle_route_empty ds \<longrightarrow>
        list_all td_idle_route_empty (fst (TruckDispatchTool_run ds route priority)))
   \<and> (supply_chain_system s = Some sys \<and> list_all idle_route_empty (trucks sys)
        \<and> dispatch_truck send_fails request s = Inr s' \<longrightarrow>
        (\<exists>sys'. supply_chain_system s' = Some sys' \<and> list_all idle_route_empty (trucks sys')))
   \<and> (supply_chain_system s = Some sys \<longrightarrow>
        (\<exists>sys'. supply_chain_system (fst (simulate_real_time_updates rnd send_fails (s, n))) = Some sys'
                \<and> map status_route (trucks sys') = map status_route (trucks sys)))"
proof (intro conjI impI)
  show "list_all truck_inv initialize_trucks"
    by (simp add: initialize_trucks_def mk_Truck_def truck_inv_def)
next
  assume inv: "list_all td_idle_route_empty ds"
  from dispatch_fst_cases [of ds route priority]
  show "list_all td_idle_route_empty (fst (TruckDispatchTool_run ds route priority))"
  proof
    assume "fst (TruckDispatchTool_run ds route priority) = ds"
    then show ?thesis using inv by simp
  next
    assume "\<exists>i<length ds. fst (TruckDispatchTool_run ds route priority) =
         ds[i := (ds ! i)\<lparr>td_status := Some ''en-route'',
                           td_route := Some (get_waypoints route),
                           td_total_stops := Some (length (get_waypoints route))\<rparr>]"
    then obtain i where i: "i < length ds"
      and eq: "fst (TruckDispatchTool_run ds route priority) =
         ds[i := (ds ! i)\<lparr>td_status := Some ''en-route'',
                           td_route := Some (get_waypoints route),
                           td_total_stops := Some (length (get_waypoints route))\<rparr>]"
      by blast
    show ?thesis
      unfolding eq list_all_length
    proof (intro allI impI)
      fix k
      assume "k < length (ds[i := (ds ! i)\<lparr>td_status := Some ''en-route'',
                           td_route := Some (get_waypoints route),
                           td_total_stops := Some (length (get_waypoints route))\<rparr>])"
      then have k: "k < length ds" by simp
      show "td_idle_route_empty (ds[i := (ds ! i)\<lparr>td_status := Some ''en-route'',
                           td_route := Some (get_waypoints route),
                           td_total_stops := Some (length (get_waypoints route))\<rparr>] ! k)"
      proof (cases "k = i")
        case True
        then show ?thesis using i by (simp add: td_idle_route_empty_def)
      next
        case False
        then show ?thesis using inv k by (simp add: list_all_length)
      qed
    qed
  qed
next
  assume a: "supply_chain_system s = Some sys \<and> list_all idle_route_empty (trucks sys)
        \<and> dispatch_truck send_fails request s = Inr s'"
  then have "supply_chain_system s' =
           Some (sys\<lparr>trucks := update_first (\<lambda>t. t_id t = req_truck_id request)
                                  (\<lambda>t. t\<lparr>t_status := ''en-route''\<rparr>) (trucks sys)\<rparr>)"
    using dispatch_truck_Inr by blast
  moreover have "list_all idle_route_empty
      (update_first (\<lambda>t. t_id t = req_truck_id request) (\<lambda>t. t\<lparr>t_status := ''en-route''\<rparr>) (trucks sys))"
    using a by (intro list_all_update_first) (simp_all add: idle_route_empty_def)
  ultimately show "\<exists>sys'. supply_chain_system s' = Some sys' \<and> list_all idle_route_empty (trucks sys')"
    by simp
next
  assume a: "supply_chain_system s = Some sys"
  show "\<exists>sys'. supply_chain_system (fst (simulate_real_time_updates rnd send_fails (s, n))) = Some sys'
                \<and> map status_route (trucks sys') = map status_route (trucks sys)"
    using tick_system [OF a, of rnd send_fails n]
    by (simp add: update_trucks_status_route)
qed

theorem idle_trucks_have_no_route_witness:
  "list_all td_idle_route_empty (map asdict_truck initialize_trucks)
   \<and> list_all td_idle_route_empty
         (fst (TruckDispatchTool_run (map asdict_truck initialize_trucks) demo_route ''medium''))
   \<and> supply_chain_system started = Some init_crew
   \<and> list_all idle_route_empty (trucks init_crew)
   \<and> \<not> isl (dispatch_truck (\<lambda>c. False) dispatch_T001 started)
   \<and> (\<exists>sys'. supply_chain_system (projr (dispatch_truck (\<lambda>c. False) dispatch_T001 started)) = Some sys'
              \<and> list_all idle_route_empty (trucks sys'))
   \<and> (\<exists>sys'. supply_chain_system (fst (simulate_real_time_updates (\<lambda>k. 1 / 2) (\<lambda>c. False) (started, 0))) = Some sys'
              \<and> map status_route (trucks sys') = map status_route (trucks init_crew))"
proof -
  have h1: "list_all td_idle_route_empty (map asdict_truck initialize_trucks)"
    by (simp add: td_idle_route_empty_def asdict_truck_def initialize_trucks_def mk_Truck_def)
  have h2: "supply_chain_system started = Some init_crew"
    by (simp add: started_def)
  have h3: "list_all idle_route_empty (trucks init_crew)"
    by (simp add: idle_route_empty_def state_eval)
  have h4: "\<not> isl (dispatch_truck (\<lambda>c. False) dispatch_T001 started)"
    by (simp add: dispatch_truck_def state_eval)
  then have h5: "dispatch_truck (\<lambda>c. False) dispatch_T001 started
                  = Inr (projr (dispatch_truck (\<lambda>c. False) dispatch_T001 started))"
    by simp
  note inst = idle_trucks_have_no_route
    [where ds = "map asdict_truck initialize_trucks" and route = demo_route and priority = "''medium''"
       and s = started and sys = init_crew and send_fails = "\<lambda>c. False" and request = dispatch_T001
       and s' = "projr (dispatch_truck (\<lambda>c. False) dispatch_T001 started)"
       and rnd = "\<lambda>k. 1 / 2" and n = 0]
  show ?thesis using inst h1 h2 h3 h4 h5 by blast
qed

text \<open>
  Dispatching truck T001 by id on the freshly started system sets its status to
  \<open>en-route\<close> and leaves its route empty: status is not \<open>idle\<close> although the route is
  empty.
\<close>

theorem dispatch_by_id_counterexample:
  "list_all truck_inv (trucks init_crew)
   \<and> \<not> isl (dispatch_truck (\<lambda>c. False) dispatch_T001 started)
   \<and> map status_route (trucks (the (supply_chain_system (projr (dispatch_truck (\<lambda>c. False) dispatch_T001 started)))))
       = [(''en-route'', []), (''idle'', []), (''idle'', []), (''idle'', [])]
   \<and> \<not> truck_inv (hd (trucks (the (supply_chain_system (projr (dispatch_truck (\<lambda>c. False) dispatch_T001 started))))))"
  by (simp add: dispatch_truck_def state_eval truck_inv_def status_route_def)

section \<open>Global metrics\<close>

text \<open>
  C8. A call of \<^verbatim>\<open>optimize_route\<close> whose origin warehouse exists and whose agent run
  returns increments \<open>active_routes\<close> by exactly 1 and sets \<open>efficiency_score\<close> to
  \<open>min 99 (previous + 0.5)\<close>, whether or not any truck is idle; it changes no other
  metric, no truck and no warehouse. A call that fails changes nothing. Dispatching a
  truck by id changes no metric.
\<close>

theorem optimize_route_metrics:
  "(optimize_route kickoff self wid reqs = (self', res) \<longrightarrow>
      warehouses self' = warehouses self \<and> trucks self' = trucks self
      \<and> demand_history self' = demand_history self
      \<and> (case res of
            OptimizeSuccess r \<Rightarrow>
              performance_metrics self' =
                (performance_metrics self)
                  \<lparr>pm_active_routes := pm_active_routes (performance_metrics self) + 1,
                   pm_efficiency_score := min 99 (pm_efficiency_score (performance_metrics self) + 0.5)\<rparr>
          | OptimizeFailure e \<Rightarrow> performance_metrics self' = performance_metrics self
          | OptimizeRaised e \<Rightarrow> performance_metrics self' = performance_metrics self)
      \<and> ((\<forall>task. \<not> isl (kickoff task)) \<and> find (\<lambda>w. w_id w = wid) (warehouses self) \<noteq> None
            \<longrightarrow> (\<exists>r. res = OptimizeSuccess r))
      \<and> (find (\<lambda>w. w_id w = wid) (warehouses self) = None
            \<longrightarrow> res = OptimizeFailure ''Origin warehouse not found''))
   \<and> (supply_chain_system s = Some sys \<and> dispatch_truck send_fails request s = Inr s' \<longrightarrow>
        (\<exists>sys'. supply_chain_system s' = Some sys'
                \<and> performance_metrics sys' = performance_metrics sys))"
proof (intro conjI impI)
  assume run: "optimize_route kickoff self wid reqs = (self', res)"
  show "warehouses self' = warehouses self"
    using run by (auto simp: optimize_route_def Let_def split: option.splits sum.splits)
  show "trucks self' = trucks self"
    using run by (auto simp: optimize_route_def Let_def split: option.splits sum.splits)
  show "demand_history self' = demand_history self"
    using run by (auto simp: optimize_route_def Let_def split: option.splits sum.splits)
  show "case res of
            OptimizeSuccess r \<Rightarrow>
              performance_metrics self' =
                (performance_metrics self)
                  \<lparr>pm_active_routes := pm_active_routes (performance_metrics self) + 1,
                   pm_efficiency_score := min 99 (pm_efficiency_score (performance_metrics self) + 0.5)\<rparr>
          | OptimizeFailure e \<Rightarrow> performance_metrics self' = performance_metrics self
          | OptimizeRaised e \<Rightarrow> performance_metrics self' = performance_metrics self"
    using run by (auto simp: optimize_route_def Let_def split: option.splits sum.splits)
  show "\<exists>r. res = OptimizeSuccess r"
    if "(\<forall>task. \<not> isl (kickoff task)) \<and> find (\<lambda>w. w_id w = wid) (warehouses self) \<noteq> None"
    using run that
    by (auto simp: optimize_route_def Let_def isl_def split: option.splits sum.splits)
  show "res = OptimizeFailure ''Origin warehouse not found''"
    if "find (\<lambda>w. w_id w = wid) (warehouses self) = None"
    using run that by (simp add: optimize_route_def)
next
  assume "supply_chain_system s = Some sys \<and> dispatch_truck send_fails request s = Inr s'"
  then show "\<exists>sys'. supply_chain_system s' = Some sys'
                \<and> performance_metrics sys' = performance_metrics sys"
    using dispatch_truck_Inr [of s sys send_fails request s'] by simp
qed

theorem optimize_route_metrics_witness:
  "snd (optimize_route (\<lambda>task. Inr ''plan'') init_crew 1 demo_deliveries) = OptimizeSuccess ''plan''
   \<and> pm_active_routes (performance_metrics (fst (optimize_route (\<lambda>task. Inr ''plan'') init_crew 1 demo_deliveries))) = 1
   \<and> pm_efficiency_score (performance_metrics (fst (optimize_route (\<lambda>task. Inr ''plan'') init_crew 1 demo_deliveries))) = 0.5
   \<and> trucks (fst (optimize_route (\<lambda>task. Inr ''plan'') init_crew 1 demo_deliveries)) = trucks init_crew
   \<and> snd (optimize_route (\<lambda>task. Inr ''plan'') init_crew 9 demo_deliveries)
       = OptimizeFailure ''Origin warehouse not found''
   \<and> performance_metrics (fst (optimize_route (\<lambda>task. Inr ''plan'') init_crew 9 demo_deliveries))
       = performance_metrics init_crew
   \<and> supply_chain_system started = Some init_crew
   \<and> \<not> isl (dispatch_truck (\<lambda>c. False) dispatch_T001 started)
   \<and> (\<exists>sys'. supply_chain_system (projr (dispatch_truck (\<lambda>c. False) dispatch_T001 started)) = Some sys'
              \<and> performance_metrics sys' = performance_metrics init_crew)"
proof -
  let ?ok = "optimize_route (\<lambda>task. Inr ''plan'') init_crew 1 demo_deliveries"
  let ?bad = "optimize_route (\<lambda>task. Inr ''plan'') init_crew 9 demo_deliveries"
  let ?d = "dispatch_truck (\<lambda>c. False) dispatch_T001 started"
  have found: "find (\<lambda>w. w_id w = 1) (warehouses init_crew) \<noteq> None"
    by (simp add: init_crew_def initialize_warehouses_def mk_Warehouse_def)
  have missing: "find (\<lambda>w. w_id w = 9) (warehouses init_crew) = None"
    by (simp add: init_crew_def initialize_warehouses_def mk_Warehouse_def)
  have total: "\<forall>task. \<not> isl ((\<lambda>task. Inr ''plan'' :: py_exn + string) task)"
    by simp
  have h2: "supply_chain_system started = Some init_crew"
    by (simp add: started_def)
  have h4: "\<not> isl ?d"
    by (simp add: dispatch_truck_def state_eval)
  then have h5: "?d = Inr (projr ?d)"
    by simp
  note ok = optimize_route_metrics
    [where kickoff = "\<lambda>task. Inr ''plan''" and self = init_crew and wid = 1 and reqs = demo_deliveries
       and self' = "fst ?ok" and res = "snd ?ok" and s = started and sys = init_crew
       and send_fails = "\<lambda>c. False" and request = dispatch_T001 and s' = "projr ?d"]
  note bad = optimize_route_metrics
    [where kickoff = "\<lambda>task. Inr ''plan''" and self = init_crew and wid = 9 and reqs = demo_deliveries
       and self' = "fst ?bad" and res = "snd ?bad" and s = started and sys = init_crew
       and send_fails = "\<lambda>c. False" and request = dispatch_T001 and s' = "projr ?d"]
  have ok_eq: "?ok = (fst ?ok, snd ?ok)" and bad_eq: "?bad = (fst ?bad, snd ?bad)"
    by simp_all
  note okc = ok [THEN conjunct1, THEN mp, OF ok_eq]
  note badc = bad [THEN conjunct1, THEN mp, OF bad_eq]
  from okc found total obtain r where r: "snd ?ok = OptimizeSuccess r"
    by blast
  have plan: "snd ?ok = OptimizeSuccess ''plan''"
    using found by (auto simp: optimize_route_def Let_def split: option.splits)
  have tr: "trucks (fst ?ok) = trucks init_crew"
    using okc by blast
  have "case snd ?ok of
            OptimizeSuccess r \<Rightarrow>
              performance_metrics (fst ?ok) =
                (performance_metrics init_crew)
                  \<lparr>pm_active_routes := pm_active_routes (performance_metrics init_crew) + 1,
                   pm_efficiency_score := min 99 (pm_efficiency_score (performance_metrics init_crew) + 0.5)\<rparr>
          | OptimizeFailure e \<Rightarrow> performance_metrics (fst ?ok) = performance_metrics init_crew
          | OptimizeRaised e \<Rightarrow> performance_metrics (fst ?ok) = performance_metrics init_crew"
    using okc by blast
  then have pm: "performance_metrics (fst ?ok) =
      (performance_metrics init_crew)
        \<lparr>pm_active_routes := pm_active_routes (performance_metrics init_crew) + 1,
         pm_efficiency_score := min 99 (pm_efficiency_score (performance_metrics init_crew) + 0.5)\<rparr>"
    unfolding plan by simp
  have 1: "pm_active_routes (performance_metrics (fst ?ok)) = 1"
    unfolding pm by (simp add: init_crew_def)
  have 2: "pm_efficiency_score (performance_metrics (fst ?ok)) = 0.5"
    unfolding pm by (simp add: init_crew_def)
  from badc missing have 3: "snd ?bad = OptimizeFailure ''Origin warehouse not found''"
    by blast
  have "case snd ?bad of
            OptimizeSuccess r \<Rightarrow>
              performance_metrics (fst ?bad) =
                (performance_metrics init_crew)
                  \<lparr>pm_active_routes := pm_active_routes (performance_metrics init_crew) + 1,
                   pm_efficiency_score := min 99 (pm_efficiency_score (performance_metrics init_crew) + 0.5)\<rparr>
          | OptimizeFailure e \<Rightarrow> performance_metrics (fst ?bad) = performance_metrics init_crew
          | OptimizeRaised e \<Rightarrow> performance_metrics (fst ?bad) = performance_metrics init_crew"
    using badc by blast
  then have 4: "performance_metrics (fst ?bad) = performance_metrics init_crew"
    unfolding 3 by simp
  from ok [THEN conjunct2] h2 h5 have 5: "\<exists>sys'. supply_chain_system (projr ?d) = Some sys'
              \<and> performance_metrics sys' = performance_metrics init_crew"
    by blast
  show ?thesis using plan 1 2 tr 3 4 h2 h4 5 by blast
qed

text \<open>
  With every truck on the road the dispatch tool can dispatch nothing, yet
  \<^verbatim>\<open>optimize_route\<close> counts one more active route. Dispatching T001 by id succeeds and
  counts nothing.
\<close>

theorem dispatch_metrics_counterexample:
  "snd (TruckDispatchTool_run (map asdict_truck (trucks busy_crew)) demo_route ''medium'')
     = NoTrucks ''No available trucks for dispatch'' ''Wait for trucks to complete current routes''
   \<and> snd (optimize_route (\<lambda>task. Inr ''plan'') busy_crew 1 demo_deliveries) = OptimizeSuccess ''plan''
   \<and> pm_active_routes (performance_metrics busy_crew) = 0
   \<and> pm_active_routes (performance_metrics (fst (optimize_route (\<lambda>task. Inr ''plan'') busy_crew 1 demo_deliveries))) = 1
   \<and> pm_efficiency_score (performance_metrics (fst (optimize_route (\<lambda>task. Inr ''plan'') busy_crew 1 demo_deliveries))) = 0.5
   \<and> \<not> isl (dispatch_truck (\<lambda>c. False) dispatch_T001 started)
   \<and> t_status (hd (trucks (the (supply_chain_system (projr (dispatch_truck (\<lambda>c. False) dispatch_T001 started))))))
       = ''en-route''
   \<and> pm_active_routes (performance_metrics (the (supply_chain_system
         (projr (dispatch_truck (\<lambda>c. False) dispatch_T001 started))))) = 0
   \<and> pm_efficiency_score (performance_metrics (the (supply_chain_system
         (projr (dispatch_truck (\<lambda>c. False) dispatch_T001 started))))) = 0"
proof -
  have tool: "snd (TruckDispatchTool_run (map asdict_truck (trucks busy_crew)) demo_route ''medium'')
     = NoTrucks ''No available trucks for dispatch'' ''Wait for trucks to complete current routes''"
    by (simp add: TruckDispatchTool_run_def Let_def busy_crew_def fleet_eval)
  have opt: "snd (optimize_route (\<lambda>task. Inr ''plan'') busy_crew 1 demo_deliveries) = OptimizeSuccess ''plan''
   \<and> pm_active_routes (performance_metrics busy_crew) = 0
   \<and> pm_active_routes (performance_metrics (fst (optimize_route (\<lambda>task. Inr ''plan'') busy_crew 1 demo_deliveries))) = 1
   \<and> pm_efficiency_score (performance_metrics (fst (optimize_route (\<lambda>task. Inr ''plan'') busy_crew 1 demo_deliveries))) = 0.5"
    by (simp add: optimize_route_def Let_def busy_crew_def init_crew_def initialize_warehouses_def
          mk_Warehouse_def)
  have byid: "\<not> isl (dispatch_truck (\<lambda>c. False) dispatch_T001 started)
   \<and> t_status (hd (trucks (the (supply_chain_system (projr (dispatch_truck (\<lambda>c. False) dispatch_T001 started))))))
       = ''en-route''
   \<and> pm_active_routes (performance_metrics (the (supply_chain_system
         (projr (dispatch_truck (\<lambda>c. False) dispatch_T001 started))))) = 0
   \<and> pm_efficiency_score (performance_metrics (the (supply_chain_system
         (projr (dispatch_truck (\<lambda>c. False) dispatch_T001 started))))) = 0"
    by (simp add: dispatch_truck_def state_eval)
  show ?thesis using tool opt byid by blast
qed


end
